theory Spec2Isabelle
  imports Complex_Main "HOL-Library.Sublist"
begin

section \<open>Strings and numbers of the source language\<close>

text \<open>
  The sources are TypeScript. A source string is a sequence of UTF-16 code units; it is
  modelled as a \<^typ>\<open>string\<close>, whose 8-bit characters stand for the code units below 256
  (ASCII and Latin-1). Texts with other code units, among them the Euro sign, are outside
  the model; a character class of a regular expression is the set of its members below 256.

  A source number is modelled as an exact rational. \<open>NaN\<close> and \<open>undefined\<close> are modelled
  by \<open>None\<close> where the code can meet them. Rounding to binary64, overflow to
  \<open>Infinity\<close>, the literal \<open>Infinity\<close> of \<open>parseFloat\<close> and the hexadecimal prefix
  of \<open>parseInt\<close> are not modelled.
\<close>

definition isDigit :: "char \<Rightarrow> bool" where
  \<comment> \<open>the class \<open>\d\<close>\<close>
  "isDigit c \<longleftrightarrow> c \<in> set ''0123456789''"

definition isAlpha :: "char \<Rightarrow> bool" where
  \<comment> \<open>the class \<open>[a-zA-Z]\<close>\<close>
  "isAlpha c \<longleftrightarrow>
     c \<in> set ''abcdefghijklmnopqrstuvwxyz'' \<or> c \<in> set ''ABCDEFGHIJKLMNOPQRSTUVWXYZ''"

definition isSpace :: "char \<Rightarrow> bool" where
  \<comment> \<open>the class \<open>\s\<close>, also what \<open>trim\<close> strips: tab, line feed, vertical tab,
      form feed, carriage return, space, no-break space\<close>
  "isSpace c \<longleftrightarrow>
     c \<in> set [CHR 0x09, CHR 0x0A, CHR 0x0B, CHR 0x0C, CHR 0x0D, CHR 0x20, CHR 0xA0]"

definition toLowerChar :: "char \<Rightarrow> char" where
  "toLowerChar c =
     (case map_of (zip ''ABCDEFGHIJKLMNOPQRSTUVWXYZ'' ''abcdefghijklmnopqrstuvwxyz'') c of
        Some l \<Rightarrow> l
      | None \<Rightarrow>
          (let n = (of_char c :: nat)
           in if 192 \<le> n \<and> n \<le> 222 \<and> n \<noteq> 215 then char_of (n + 32) else c))"

definition toLowerCase :: "string \<Rightarrow> string" where
  "toLowerCase s = map toLowerChar s"

definition trim :: "string \<Rightarrow> string" where
  "trim s = rev (dropWhile isSpace (rev (dropWhile isSpace s)))"

fun includesStr :: "string \<Rightarrow> string \<Rightarrow> bool" where
  \<comment> \<open>\<open>s.includes(w)\<close>: \<open>w\<close> occurs in \<open>s\<close> as a contiguous substring\<close>
  "includesStr [] w \<longleftrightarrow> w = []"
| "includesStr (c # cs) w \<longleftrightarrow> prefix w (c # cs) \<or> includesStr cs w"

fun replaceFirst :: "char \<Rightarrow> char \<Rightarrow> string \<Rightarrow> string" where
  \<comment> \<open>\<open>s.replace(a, b)\<close> with a one-character string pattern: the first occurrence only\<close>
  "replaceFirst a b [] = []"
| "replaceFirst a b (c # cs) = (if c = a then b # cs else c # replaceFirst a b cs)"

fun indexFrom :: "char \<Rightarrow> string \<Rightarrow> int \<Rightarrow> int \<Rightarrow> int" where
  "indexFrom a [] i found = found"
| "indexFrom a (c # cs) i found = indexFrom a cs (i + 1) (if c = a then i else found)"

definition lastIndexOf :: "string \<Rightarrow> char \<Rightarrow> int" where
  \<comment> \<open>the index of the last occurrence, \<open>-1\<close> when there is none\<close>
  "lastIndexOf s a = indexFrom a s 0 (- 1)"

fun splitOn :: "(char \<Rightarrow> bool) \<Rightarrow> string \<Rightarrow> string list" where
  \<comment> \<open>\<open>s.split(sep)\<close> for a separator that is one character of a class; the empty
      string splits into one empty part\<close>
  "splitOn sep [] = [[]]"
| "splitOn sep (c # cs) =
     (if sep c then [] # splitOn sep cs
      else (case splitOn sep cs of [] \<Rightarrow> [[c]] | w # ws \<Rightarrow> (c # w) # ws))"

definition padStart2 :: "string \<Rightarrow> string" where
  \<comment> \<open>\<open>s.padStart(2, '0')\<close>\<close>
  "padStart2 s = replicate (2 - length s) CHR ''0'' @ s"

definition digitValue :: "char \<Rightarrow> nat" where
  "digitValue c = of_char c - 48"

definition digitsValue :: "string \<Rightarrow> nat" where
  "digitsValue ds = foldl (\<lambda>a c. 10 * a + digitValue c) 0 ds"

definition signOf :: "string \<Rightarrow> rat \<times> string" where
  "signOf s =
     (case s of
        c # r \<Rightarrow> if c = CHR ''-'' then (- 1, r) else if c = CHR ''+'' then (1, r) else (1, s)
      | [] \<Rightarrow> (1, s))"

definition exponentPart :: "string \<Rightarrow> rat" where
  \<comment> \<open>the factor of an exponent part \<open>[eE][+-]?\d+\<close> at the head of the string, 1 when
      there is none\<close>
  "exponentPart s =
     (case s of
        [] \<Rightarrow> 1
      | e # r \<Rightarrow>
          if e = CHR ''e'' \<or> e = CHR ''E'' then
            (let (sg, u) = signOf r; ds = takeWhile isDigit u
             in if ds = [] then 1
                else if sg < 0 then 1 / 10 ^ digitsValue ds else 10 ^ digitsValue ds)
          else 1)"

definition parseFloat :: "string \<Rightarrow> rat option" where
  \<comment> \<open>the value of the longest prefix, after leading white space, that is a decimal
      literal; \<open>None\<close> is \<open>NaN\<close>\<close>
  "parseFloat s =
     (let (sg, u) = signOf (dropWhile isSpace s);
          ip = takeWhile isDigit u;
          r1 = dropWhile isDigit u;
          fp = (case r1 of [] \<Rightarrow> [] | c # r \<Rightarrow> if c = CHR ''.'' then takeWhile isDigit r else []);
          r2 = (case r1 of [] \<Rightarrow> [] | c # r \<Rightarrow> if c = CHR ''.'' then dropWhile isDigit r else r1)
      in if ip = [] \<and> fp = [] then None
         else Some (sg * (of_nat (digitsValue ip) + of_nat (digitsValue fp) / 10 ^ length fp)
                       * exponentPart r2))"

definition parseInt :: "string \<Rightarrow> int option" where
  \<comment> \<open>the value of the longest decimal integer prefix after leading white space;
      \<open>None\<close> is \<open>NaN\<close>\<close>
  "parseInt s =
     (let (sg, u) = signOf (dropWhile isSpace s);
          ds = takeWhile isDigit u
      in if ds = [] then None
         else Some ((if sg < 0 then - 1 else 1) * int (digitsValue ds)))"

definition mathRound :: "rat \<Rightarrow> int" where
  \<comment> \<open>\<open>Math.round\<close>: the nearest integer, a half rounded up\<close>
  "mathRound x = \<lfloor>x + 1 / 2\<rfloor>"

function natToString :: "nat \<Rightarrow> string" where
  "natToString n =
     (if n < 10 then [''0123456789'' ! n]
      else natToString (n div 10) @ [''0123456789'' ! (n mod 10)])"
  by pat_completeness auto
termination
  by (relation "measure id") auto

declare natToString.simps [simp del]

definition numToString :: "int option \<Rightarrow> string" where
  \<comment> \<open>\<open>toString\<close> of an integral number or of \<open>NaN\<close>\<close>
  "numToString x =
     (case x of
        None \<Rightarrow> ''NaN''
      | Some n \<Rightarrow> if n < 0 then CHR ''-'' # natToString (nat (- n)) else natToString (nat n))"

definition numLe :: "int option \<Rightarrow> int \<Rightarrow> bool" where
  \<comment> \<open>\<open>x <= k\<close>; every comparison with \<open>NaN\<close> is false\<close>
  "numLe x k = (case x of None \<Rightarrow> False | Some n \<Rightarrow> n \<le> k)"

definition numLt :: "int option \<Rightarrow> int \<Rightarrow> bool" where
  "numLt x k = (case x of None \<Rightarrow> False | Some n \<Rightarrow> n < k)"

definition numGt :: "int option \<Rightarrow> int \<Rightarrow> bool" where
  "numGt x k = (case x of None \<Rightarrow> False | Some n \<Rightarrow> n > k)"

definition numGe :: "int option \<Rightarrow> int \<Rightarrow> bool" where
  "numGe x k = (case x of None \<Rightarrow> False | Some n \<Rightarrow> n \<ge> k)"

section \<open>Edit-distance similarity of the field parser\<close>

text \<open>
  \<open>IntelligentParser.calculateSimilarity\<close> fills a matrix of \<open>len1 + 1\<close> rows and
  \<open>len2 + 1\<close> columns row by row. \<open>fillRow\<close> is the inner loop over \<open>j\<close>: it gets the
  character \<open>str1[i - 1]\<close>, the rest of \<open>str2\<close> from \<open>str2[j - 1]\<close> on, row \<open>i - 1\<close>
  from column \<open>j - 1\<close> on, and \<open>matrix[i][j - 1]\<close>. \<open>fillMatrix\<close> is the outer loop over
  \<open>i\<close>, carrying row \<open>i - 1\<close>; row 0 is \<open>0, 1, \<dots>, len2\<close> and column 0 of row \<open>i\<close> is
  \<open>i\<close>. The comparison \<open>===\<close> of two code units is equality, so the functions are
  polymorphic in the type of the code units.
\<close>

fun fillRow :: "'a \<Rightarrow> 'a list \<Rightarrow> nat list \<Rightarrow> nat \<Rightarrow> nat list" where
  "fillRow c (d # ds) (diag # up # prev) left =
     (let cost = (if c = d then 0 else 1);
          v = min (min (up + 1) (left + 1)) (diag + cost)
      in v # fillRow c ds (up # prev) v)"
| "fillRow c ds prev left = []"

fun fillMatrix :: "'a list \<Rightarrow> 'a list \<Rightarrow> nat list \<Rightarrow> nat \<Rightarrow> nat list" where
  "fillMatrix [] str2 row i = row"
| "fillMatrix (c # cs) str2 row i = fillMatrix cs str2 (i # fillRow c str2 row i) (i + 1)"

definition levenshtein :: "'a list \<Rightarrow> 'a list \<Rightarrow> nat" where
  \<comment> \<open>\<open>matrix[len1][len2]\<close>\<close>
  "levenshtein str1 str2 = last (fillMatrix str1 str2 [0..<length str2 + 1] 1)"

definition calculateSimilarity :: "'a list \<Rightarrow> 'a list \<Rightarrow> rat" where
  "calculateSimilarity str1 str2 =
     (let len1 = length str1; len2 = length str2;
          distance = levenshtein str1 str2;
          maxLength = max len1 len2
      in if maxLength = 0 then 1
         else (of_nat maxLength - of_nat distance) / of_nat maxLength)"

definition fuzzyMatchThreshold :: rat where
  \<comment> \<open>\<open>config.fuzzyMatchThreshold\<close>\<close>
  "fuzzyMatchThreshold = 7 / 10"

definition fuzzyMatch :: "'a list \<Rightarrow> 'a list \<Rightarrow> bool" where
  "fuzzyMatch text' pattern \<longleftrightarrow> calculateSimilarity text' pattern \<ge> fuzzyMatchThreshold"

section \<open>Amount parsing\<close>

text \<open>
  The three \<open>parseAmount\<close> methods, of \<open>IntelligentParser\<close>, \<open>OCRService\<close> and
  \<open>OptimizedOCRService\<close>. The first and the third begin by deleting the characters of
  the class \<open>[\$(Euro)(Pound),\s]\<close>, the comma among them; the branches that test for a comma
  afterwards are kept as the source has them.
\<close>

definition IntelligentParser_parseAmount :: "string \<Rightarrow> rat" where
  "IntelligentParser_parseAmount amountStr =
     (if amountStr = [] then 0
      else
        (let cleaned = filter (\<lambda>c. \<not> (c \<in> set [CHR ''$'', CHR 0xA3, CHR '',''] \<or> isSpace c)) amountStr;
             cleaned =
               (if CHR '','' \<in> set cleaned \<and> CHR ''.'' \<notin> set cleaned then
                  replaceFirst CHR '','' CHR ''.'' cleaned
                else if CHR '','' \<in> set cleaned \<and> CHR ''.'' \<in> set cleaned then
                  (let lastComma = lastIndexOf cleaned CHR '','';
                       lastDot = lastIndexOf cleaned CHR ''.''
                   in if lastComma > lastDot then
                        replaceFirst CHR '','' CHR ''.'' (filter (\<lambda>c. c \<noteq> CHR ''.'') cleaned)
                      else filter (\<lambda>c. c \<noteq> CHR '','') cleaned)
                else cleaned)
         in case parseFloat cleaned of
              None \<Rightarrow> 0
            | Some number \<Rightarrow> of_int (mathRound (number * 100)) / 100))"

definition endsCommaTwoDigits :: "string \<Rightarrow> bool" where
  \<comment> \<open>the test of \<open>/,\d{2}$/\<close>\<close>
  "endsCommaTwoDigits s =
     (case rev s of
        d2 # d1 # c # r \<Rightarrow> c = CHR '','' \<and> isDigit d1 \<and> isDigit d2
      | _ \<Rightarrow> False)"

definition OCRService_parseAmount :: "string \<Rightarrow> rat" where
  "OCRService_parseAmount amountStr =
     (let cleaned = filter (\<lambda>c. isDigit c \<or> c = CHR ''.'' \<or> c = CHR '','') amountStr;
          number =
            (if CHR '','' \<in> set cleaned \<and> CHR ''.'' \<in> set cleaned then
               (let parts = splitOn (\<lambda>c. c = CHR '','') cleaned;
                    integerPart = filter (\<lambda>c. c \<noteq> CHR ''.'') (hd parts);
                    decimalPart = (case tl parts of [] \<Rightarrow> ''0'' | p # ps \<Rightarrow> if p = [] then ''0'' else p)
                in parseFloat (integerPart @ ''.'' @ decimalPart))
             else if CHR '','' \<in> set cleaned \<and> endsCommaTwoDigits cleaned then
               parseFloat (replaceFirst CHR '','' CHR ''.'' cleaned)
             else parseFloat (filter (\<lambda>c. c \<noteq> CHR '','') cleaned))
      in case number of None \<Rightarrow> 0 | Some n \<Rightarrow> n)"

definition OptimizedOCRService_parseAmount :: "string \<Rightarrow> rat" where
  "OptimizedOCRService_parseAmount amountStr =
     (if amountStr = [] then 0
      else
        (let cleaned = filter (\<lambda>c. \<not> (c \<in> set [CHR ''$'', CHR 0xA3, CHR '',''] \<or> isSpace c)) amountStr;
             cleaned =
               (if CHR '','' \<in> set cleaned \<and> CHR ''.'' \<notin> set cleaned then
                  replaceFirst CHR '','' CHR ''.'' cleaned
                else cleaned)
         in case parseFloat cleaned of
              None \<Rightarrow> 0
            | Some number \<Rightarrow> of_int (mathRound (number * 100)) / 100))"

section \<open>Date normalization\<close>

text \<open>
  \<open>IntelligentParser.normalizeDate\<close> converts the three parts to numbers and formats
  them again; \<open>OCRService.normalizeDate\<close> keeps the parts as strings and looks at their
  lengths.
\<close>

definition isDateSeparator :: "char \<Rightarrow> bool" where
  \<comment> \<open>the class \<open>[\/\-\.]\<close>\<close>
  "isDateSeparator c \<longleftrightarrow> c \<in> set ''/-.''"

definition IntelligentParser_normalizeDate :: "string \<Rightarrow> string" where
  "IntelligentParser_normalizeDate dateStr =
     (let cleanDate = filter (\<lambda>c. isDigit c \<or> isDateSeparator c) dateStr;
          parts = splitOn isDateSeparator cleanDate
      in case map parseInt parts of
           [part1, part2, part3] \<Rightarrow>
             if numGt part3 1900 then
               if numLe part1 12 \<and> numLe part2 31 then
                 padStart2 (numToString part1) @ ''/'' @ padStart2 (numToString part2)
                   @ ''/'' @ numToString part3
               else if numLe part2 12 \<and> numLe part1 31 then
                 padStart2 (numToString part2) @ ''/'' @ padStart2 (numToString part1)
                   @ ''/'' @ numToString part3
               else dateStr
             else
               (let month = (if numLe part1 12 then part1 else part2);
                    day = (if numLe part1 12 then part2 else part1);
                    year = map_option (\<lambda>y. y + (if y < 50 then 2000 else 1900)) part3
                in padStart2 (numToString month) @ ''/'' @ padStart2 (numToString day)
                     @ ''/'' @ numToString year)
         | _ \<Rightarrow> dateStr)"


section \<open>Quality score of a recognition result\<close>

text \<open>
  \<open>EnterpriseOCREngine.calculateQualityScore\<close>. \<open>testMonetary\<close> is the test of
  \<open>/\$\d+\.?\d{0,2}|\d+\.\d{2}/\<close>: at some position either a dollar sign followed by a
  digit, or a run of digits followed by a dot and two digits. \<open>foundReceiptWords\<close> and
  \<open>specialCharCount\<close> name two expressions that the source writes inline: the number
  of receipt words that the lowercased text includes, and the number of matches of
  \<open>/[^a-zA-Z0-9\s.,\$:()\-]/g\<close>. The confidence is \<open>None\<close> when it is absent or
  \<open>NaN\<close>; the special-character ratio is \<open>None\<close> (\<open>NaN\<close>) for the empty text.
\<close>

definition monetaryAt :: "string \<Rightarrow> bool" where
  "monetaryAt s =
     (case s of
        [] \<Rightarrow> False
      | c # r \<Rightarrow>
          (c = CHR ''$'' \<and> (case r of [] \<Rightarrow> False | d # r' \<Rightarrow> isDigit d))
          \<or> (isDigit c \<and>
               (case dropWhile isDigit r of
                  p # d1 # d2 # r' \<Rightarrow> p = CHR ''.'' \<and> isDigit d1 \<and> isDigit d2
                | _ \<Rightarrow> False)))"

fun testMonetary :: "string \<Rightarrow> bool" where
  "testMonetary [] = False"
| "testMonetary (c # cs) = (monetaryAt (c # cs) \<or> testMonetary cs)"

definition receiptWords :: "string list" where
  "receiptWords = [''total'', ''subtotal'', ''tax'', ''amount'', ''receipt'', ''invoice'', ''date'', ''time'']"

definition isAllowedChar :: "char \<Rightarrow> bool" where
  \<comment> \<open>the class \<open>[a-zA-Z0-9\s.,\$:()\-]\<close>\<close>
  "isAllowedChar c \<longleftrightarrow> isAlpha c \<or> isDigit c \<or> isSpace c \<or> c \<in> set ''.,$:()-''"

definition foundReceiptWords :: "string \<Rightarrow> nat" where
  "foundReceiptWords text' =
     length (filter (\<lambda>word. includesStr (toLowerCase text') (toLowerCase word)) receiptWords)"

definition specialCharCount :: "string \<Rightarrow> nat" where
  "specialCharCount text' = length (filter (\<lambda>c. \<not> isAllowedChar c) text')"

definition calculateQualityScore :: "string \<Rightarrow> rat option \<Rightarrow> rat" where
  "calculateQualityScore text' confidence' =
     (let score = (case confidence' of None \<Rightarrow> 0 | Some c \<Rightarrow> c);
          score = (if testMonetary text' then score + 15 else score);
          foundWords = foundReceiptWords text';
          score = (if foundWords > 0 then score + of_nat (foundWords * 3) else score);
          score = (if length text' > 50 \<and> length text' < 5000 then score + 5 else score);
          specialCharRatio =
            (if length text' = 0 then None
             else Some (of_nat (specialCharCount text') / of_nat (length text')));
          score =
            (case specialCharRatio of
               None \<Rightarrow> score
             | Some r \<Rightarrow> if r > 1 / 10 then score - of_int (mathRound (r * 20)) else score)
      in max 0 (min 100 score))"

definition claimedQualityScore :: "string \<Rightarrow> rat option \<Rightarrow> rat" where
  "claimedQualityScore text' confidence' =
     max 0 (min 100
       ((case confidence' of None \<Rightarrow> 0 | Some c \<Rightarrow> c)
        + (if testMonetary text' then 15 else 0)
        + 3 * of_nat (foundReceiptWords text')
        + (if length text' > 50 \<and> length text' < 5000 then 5 else 0)
        - of_int (mathRound (20 * (of_nat (specialCharCount text') / of_nat (length text'))))))"

section \<open>Recognition attempts over variants and configurations\<close>

text \<open>
  \<open>EnterpriseOCREngine.performMultiEngineOCR\<close>. The recognition engine is an external,
  stateful worker: what \<open>setParameters\<close> and \<open>recognize\<close> do on the attempt for variant
  \<open>variantIdx\<close> and configuration \<open>configIdx\<close> is a parameter of the model, a function of
  the two indices. An attempt either throws (in \<open>setParameters\<close> or in \<open>recognize\<close>) or
  yields the recognized text, the confidence reported by the engine (\<open>None\<close> when it is
  absent) and the time the attempt took. The canvas of a variant is opaque and is left
  out. The lines written to the console by the start of an attempt and by the
  \<open>catch\<close> block are kept in a log, so that the attempts made can be counted.
\<close>

record ImageVariant =
  name_v :: string
  description_v :: string

record OCRConfig =
  psm :: string
  name_c :: string
  description_c :: string
  parameters :: "(string \<times> string) list"

record OCRResult =
  text_r :: string
  confidence_r :: rat
  method_r :: string
  processingTime_r :: rat

datatype recognition =
    Throws string
  | Recognized string "rat option" rat

datatype log_line =
    AttemptStarted nat nat
  | AttemptFailed string

record orchestration =
  bestResult :: OCRResult
  results :: "OCRResult list"
  console :: "log_line list"

definition attemptBody ::
  "recognition \<Rightarrow> ImageVariant \<Rightarrow> nat \<Rightarrow> OCRConfig \<Rightarrow> nat \<Rightarrow> orchestration \<Rightarrow> orchestration" where
  \<comment> \<open>the body of the inner loop: the \<open>try\<close> block and its \<open>catch\<close>\<close>
  "attemptBody outcome variant variantIdx config configIdx st =
     (let st = st\<lparr>console := console st @ [AttemptStarted variantIdx configIdx]\<rparr>
      in case outcome of
           Throws message \<Rightarrow> st\<lparr>console := console st @ [AttemptFailed message]\<rparr>
         | Recognized text' engineConfidence elapsed \<Rightarrow>
             (let confidence = (case engineConfidence of None \<Rightarrow> 0 | Some c \<Rightarrow> c);
                  qualityScore = calculateQualityScore text' (Some confidence);
                  result = \<lparr>text_r = text', confidence_r = qualityScore,
                            method_r = name_v variant @ ''+'' @ name_c config,
                            processingTime_r = elapsed\<rparr>;
                  st = st\<lparr>results := results st @ [result]\<rparr>
              in if qualityScore > confidence_r (bestResult st)
                 then st\<lparr>bestResult := result\<rparr>
                 else st))"

fun configLoop ::
  "(nat \<Rightarrow> recognition) \<Rightarrow> ImageVariant \<Rightarrow> nat \<Rightarrow> OCRConfig list \<Rightarrow> nat
     \<Rightarrow> orchestration \<Rightarrow> orchestration" where
  "configLoop worker variant variantIdx [] configIdx st = st"
| "configLoop worker variant variantIdx (config # ocrConfigs) configIdx st =
     configLoop worker variant variantIdx ocrConfigs (configIdx + 1)
       (attemptBody (worker configIdx) variant variantIdx config configIdx st)"

fun variantLoop ::
  "(nat \<Rightarrow> nat \<Rightarrow> recognition) \<Rightarrow> ImageVariant list \<Rightarrow> nat \<Rightarrow> OCRConfig list
     \<Rightarrow> orchestration \<Rightarrow> orchestration" where
  "variantLoop worker [] variantIdx ocrConfigs st = st"
| "variantLoop worker (variant # imageVariants) variantIdx ocrConfigs st =
     variantLoop worker imageVariants (variantIdx + 1) ocrConfigs
       (configLoop (worker variantIdx) variant variantIdx ocrConfigs 0 st)"

definition initialResult :: OCRResult where
  "initialResult = \<lparr>text_r = '''', confidence_r = 0, method_r = '''', processingTime_r = 0\<rparr>"

definition runAttempts ::
  "(nat \<Rightarrow> nat \<Rightarrow> recognition) \<Rightarrow> ImageVariant list \<Rightarrow> OCRConfig list \<Rightarrow> orchestration" where
  \<comment> \<open>the two nested loops, from the initial best result and an empty list of results\<close>
  "runAttempts worker imageVariants ocrConfigs =
     variantLoop worker imageVariants 0 ocrConfigs
       \<lparr>bestResult = initialResult, results = [], console = []\<rparr>"

definition performMultiEngineOCR ::
  "(nat \<Rightarrow> nat \<Rightarrow> recognition) \<Rightarrow> ImageVariant list \<Rightarrow> OCRConfig list \<Rightarrow> string + OCRResult" where
  \<comment> \<open>\<open>Inl\<close> would be a rejected promise; the method has no \<open>throw\<close> outside the
      \<open>try\<close> block and ends in \<open>return bestResult\<close>\<close>
  "performMultiEngineOCR worker imageVariants ocrConfigs =
     Inr (bestResult (runAttempts worker imageVariants ocrConfigs))"

definition isThrows :: "recognition \<Rightarrow> bool" where
  "isThrows outcome = (case outcome of Throws message \<Rightarrow> True | Recognized t c e \<Rightarrow> False)"

definition isAttemptStarted :: "log_line \<Rightarrow> bool" where
  "isAttemptStarted l = (case l of AttemptStarted i j \<Rightarrow> True | AttemptFailed message \<Rightarrow> False)"

section \<open>The structured record\<close>

text \<open>
  \<open>ExtractedInvoiceData\<close> and \<open>InvoiceItem\<close>, with the fields of the interfaces. An
  optional field is \<open>None\<close> while it is \<open>undefined\<close>. The source tests a field with
  \<open>!field\<close>: a string field counts as set when it is defined and not empty, a number
  field when it is defined and not zero.
\<close>

record InvoiceItem =
  description :: string
  quantity :: "rat option"
  unitPrice :: "rat option"
  amount :: "rat option"

record ExtractedInvoiceData =
  id' :: string
  invoiceNumber :: "string option"
  date :: "string option"
  time :: "string option"
  dueDate :: "string option"
  vendor :: "string option"
  vendorAddress :: "string option"
  vendorPhone :: "string option"
  vendorEmail :: "string option"
  billTo :: "string option"
  billToAddress :: "string option"
  subtotal :: "rat option"
  tax :: "rat option"
  total' :: "rat option"
  currency :: "string option"
  transactionId :: "string option"
  authorizationCode :: "string option"
  terminalId :: "string option"
  merchantId :: "string option"
  cardNumber :: "string option"
  paymentMethod :: "string option"
  extraField1 :: "string option"
  extraField2 :: "string option"
  extraField3 :: "string option"
  extraField4 :: "string option"
  extraField5 :: "string option"
  items :: "InvoiceItem list option"
  rawText :: "string option"
  processingMethod :: "string option"
  confidence :: "rat option"
  processingTime :: "rat option"

definition truthyStr :: "string option \<Rightarrow> bool" where
  "truthyStr x = (case x of None \<Rightarrow> False | Some s \<Rightarrow> s \<noteq> [])"

definition truthyNum :: "rat option \<Rightarrow> bool" where
  "truthyNum x = (case x of None \<Rightarrow> False | Some v \<Rightarrow> v \<noteq> 0)"

definition emptyRecord :: "string \<Rightarrow> ExtractedInvoiceData" where
  \<comment> \<open>an object literal that sets the identifier only\<close>
  "emptyRecord uuid =
     \<lparr>id' = uuid, invoiceNumber = None, date = None, time = None, dueDate = None,
      vendor = None, vendorAddress = None, vendorPhone = None, vendorEmail = None,
      billTo = None, billToAddress = None, subtotal = None, tax = None, total' = None,
      currency = None, transactionId = None, authorizationCode = None, terminalId = None,
      merchantId = None, cardNumber = None, paymentMethod = None, extraField1 = None,
      extraField2 = None, extraField3 = None, extraField4 = None, extraField5 = None,
      items = None, rawText = None, processingMethod = None, confidence = None,
      processingTime = None\<rparr>"

section \<open>Fuzzy matching of the field parser\<close>

text \<open>
  \<open>IntelligentParser.extractWithFuzzyMatching\<close> and \<open>processFuzzyMatchedLine\<close>.
  \<open>numberMatchAt\<close> is one match of \<open>/\$?(\d+[,.]?\d*)/\<close> at the head of a string: an
  optional dollar sign, a run of digits, an optional comma or dot, a run of digits; it
  gives the matched text. \<open>numberMatches\<close> is \<open>line.match\<close> with that expression and
  the flag \<open>g\<close>: the matches from left to right, each search starting where the match
  before ended. The empty list stands for \<open>null\<close>.
\<close>

definition numberBody :: "string \<Rightarrow> string" where
  \<comment> \<open>\<open>\d+[,.]?\d*\<close> at the head of a string that starts with a digit\<close>
  "numberBody s =
     (let ds = takeWhile isDigit s; r = dropWhile isDigit s
      in case r of
           [] \<Rightarrow> ds
         | c # r' \<Rightarrow> if c = CHR '','' \<or> c = CHR ''.'' then ds @ [c] @ takeWhile isDigit r' else ds)"

definition numberMatchAt :: "string \<Rightarrow> string option" where
  "numberMatchAt s =
     (case s of
        [] \<Rightarrow> None
      | c # r \<Rightarrow>
          if c = CHR ''$'' \<and> r \<noteq> [] \<and> isDigit (hd r) then Some (c # numberBody r)
          else if isDigit c then Some (numberBody s)
          else None)"

function numberMatches :: "string \<Rightarrow> string list" where
  "numberMatches s =
     (if s = [] then []
      else case numberMatchAt s of
             Some m \<Rightarrow> m # numberMatches (drop (max 1 (length m)) s)
           | None \<Rightarrow> numberMatches (tl s))"
  by pat_completeness auto
termination
  by (relation "measure length") auto

declare numberMatches.simps [simp del]

definition fuzzyPatterns :: "(string \<times> string list) list" where
  "fuzzyPatterns =
     [(''total'', [''total'', ''totaal'', ''tota1'', ''t0tal'', ''tatol'', ''iotal'', ''fotal'']),
      (''subtotal'', [''subtotal'', ''sub total'', ''subtotaal'', ''sub-total'', ''sublotal'']),
      (''tax'', [''tax'', ''btw'', ''vat'', ''sales tax'', ''tax:'', ''tox'', ''iax'']),
      (''amount'', [''amount'', ''bedrag'', ''am0unt'', ''amouht'', ''am0unt'']),
      (''invoice'', [''invoice'', ''factuur'', ''inv0ice'', ''invoic3'', ''1nvoice''])]"

definition processFuzzyMatchedLine ::
  "ExtractedInvoiceData \<Rightarrow> string \<Rightarrow> string \<Rightarrow> ExtractedInvoiceData" where
  "processFuzzyMatchedLine invoiceData line fieldType =
     (let numberMatch = numberMatches line
      in if numberMatch = [] then invoiceData
         else
           (let amount = IntelligentParser_parseAmount (last numberMatch)
            in if amount > 0 then
                 if fieldType = ''total'' then
                   if \<not> truthyNum (total' invoiceData) \<or> amount > the (total' invoiceData)
                   then invoiceData\<lparr>total' := Some amount\<rparr> else invoiceData
                 else if fieldType = ''subtotal'' then
                   if \<not> truthyNum (subtotal invoiceData)
                   then invoiceData\<lparr>subtotal := Some amount\<rparr> else invoiceData
                 else if fieldType = ''tax'' then
                   if \<not> truthyNum (tax invoiceData)
                   then invoiceData\<lparr>tax := Some amount\<rparr> else invoiceData
                 else invoiceData
               else invoiceData))"

fun variationLoop ::
  "ExtractedInvoiceData \<Rightarrow> string \<Rightarrow> string \<Rightarrow> string \<Rightarrow> string list \<Rightarrow> ExtractedInvoiceData" where
  \<comment> \<open>the loop over the variations of one field, left by \<open>break\<close> at the first match\<close>
  "variationLoop invoiceData line lowerLine field [] = invoiceData"
| "variationLoop invoiceData line lowerLine field (variation # variations) =
     (if fuzzyMatch lowerLine variation then processFuzzyMatchedLine invoiceData line field
      else variationLoop invoiceData line lowerLine field variations)"

fun fieldLoop ::
  "ExtractedInvoiceData \<Rightarrow> string \<Rightarrow> string \<Rightarrow> (string \<times> string list) list \<Rightarrow> ExtractedInvoiceData" where
  "fieldLoop invoiceData line lowerLine [] = invoiceData"
| "fieldLoop invoiceData line lowerLine ((field, variations) # entries) =
     fieldLoop (variationLoop invoiceData line lowerLine field variations) line lowerLine entries"

fun extractWithFuzzyMatching :: "ExtractedInvoiceData \<Rightarrow> string list \<Rightarrow> ExtractedInvoiceData" where
  "extractWithFuzzyMatching invoiceData [] = invoiceData"
| "extractWithFuzzyMatching invoiceData (line # lines) =
     extractWithFuzzyMatching (fieldLoop invoiceData line (toLowerCase line) fuzzyPatterns) lines"

section \<open>The field parser\<close>

text \<open>
  \<open>IntelligentParser.parseInvoiceData\<close> and the methods it calls. The host of the
  program is a parameter of the model: the regular-expression engine applied to the
  expressions of the source, each named by a constructor of \<open>regex\<close>; the validity of a
  date string for \<open>new Date\<close>; the identifier drawn by \<open>crypto.randomUUID\<close>; and the time
  that \<open>performance.now\<close> measures for the parse.
  \<^item> \<open>capture h re s\<close> is \<open>Some g\<close> when \<open>s.match(re)\<close> is not \<open>null\<close> and its entry 1 is the
    non-empty string \<open>g\<close>, and \<open>None\<close> otherwise;
  \<^item> \<open>capture2 h re s\<close> is the same for the entries 1 and 2 together;
  \<^item> \<open>test h re s\<close> is \<open>re.test(s)\<close>;
  \<^item> \<open>execAll h re s\<close> lists the results of the calls \<open>re.exec(s)\<close> up to the first
    \<open>null\<close>, each as entry 0, entry 1 (\<open>None\<close> when it is empty or \<open>undefined\<close>) and
    \<open>index\<close>;
  \<^item> \<open>timeParts h s\<close> gives the entries 1, 2 and 4 of the match of the time pattern.
  The fuzzy-matching strategy, the cleaning of the lines, \<open>parseAmount\<close> and
  \<open>normalizeDate\<close> do not depend on the host. No statement of
  \<open>parseInvoiceData\<close> inside its \<open>try\<close> block can throw, so the \<open>catch\<close> block is not
  modelled.
\<close>

datatype regex =
    InvoiceNumberLabelled | InvoiceNumberShort | InvoiceNumberStandalone
  | DateLabelled | DateAnywhere | DateIssued
  | TimeAnywhere | TimeLabelled
  | VendorLabelled | VendorNamed | VendorSkip | VendorStartsWithLetter | VendorStartsWithNumber
  | AddressStreet | AddressPostal | AddressSingleLine
  | Phone | Email
  | AmountDollar | AmountUSD | AmountEuroSign | AmountEUR | AmountDecimal | AmountComma
  | TotalLine | SubtotalLine | TaxLine
  | ContextTotal | ContextSubtotal | ContextTax | ContextAmount | ContextDue
  | DollarFormat | PlainFormat | EuropeanFormat | USFormat
  | ItemLine | ItemKeyword
  | TransactionId | AuthorizationCode | CardNumber | PaymentMethod
  | ExtraSkip

record host =
  capture :: "regex \<Rightarrow> string \<Rightarrow> string option"
  capture2 :: "regex \<Rightarrow> string \<Rightarrow> (string \<times> string) option"
  test :: "regex \<Rightarrow> string \<Rightarrow> bool"
  execAll :: "regex \<Rightarrow> string \<Rightarrow> (string \<times> string option \<times> nat) list"
  timeParts :: "string \<Rightarrow> (string \<times> string \<times> string option) option"
  isValidDate :: "string \<Rightarrow> bool"
  randomUUID :: string
  parseElapsed :: rat

record ParsedAmount =
  value' :: rat
  currency_a :: "string option"
  confidence_a :: rat
  source :: string

subsection \<open>Cleaning of the lines\<close>

function collapseSpaces :: "string \<Rightarrow> string" where
  \<comment> \<open>\<open>s.replace(/\s+/g, ' ')\<close>\<close>
  "collapseSpaces [] = []"
| "collapseSpaces (c # cs) =
     (if isSpace c then CHR '' '' # collapseSpaces (dropWhile isSpace cs)
      else c # collapseSpaces cs)"
  by pat_completeness auto
termination
  by (relation "measure length") (auto simp: length_dropWhile_le less_Suc_eq_le)

definition decimalFixAt :: "string \<Rightarrow> (string \<times> string) option" where
  \<comment> \<open>one match of \<open>/(\d)\s*[,.]\s*(\d{2})(?!\d)/\<close> at the head of a string: its
      replacement \<open>$1.$2\<close> and the rest of the string after the match\<close>
  "decimalFixAt s =
     (case s of
        [] \<Rightarrow> None
      | d # r \<Rightarrow>
          if isDigit d then
            (case dropWhile isSpace r of
               [] \<Rightarrow> None
             | p # r' \<Rightarrow>
                 if p = CHR '','' \<or> p = CHR ''.'' then
                   (case dropWhile isSpace r' of
                      d1 # d2 # r'' \<Rightarrow>
                        if isDigit d1 \<and> isDigit d2 \<and> (r'' = [] \<or> \<not> isDigit (hd r''))
                        then Some ([d, CHR ''.'', d1, d2], r'')
                        else None
                    | _ \<Rightarrow> None)
                 else None)
          else None)"

lemma decimalFixAt_shorter:
  "decimalFixAt s = Some (replacement, rest) \<Longrightarrow> length rest < length s"
proof -
  assume m: "decimalFixAt s = Some (replacement, rest)"
  then obtain d r where s: "s = d # r" and d: "isDigit d"
    by (cases s) (auto simp: decimalFixAt_def split: if_splits)
  from m s d obtain p r' where r: "dropWhile isSpace r = p # r'"
    by (cases "dropWhile isSpace r") (auto simp: decimalFixAt_def)
  from m s d r obtain d1 d2 where r': "dropWhile isSpace r' = d1 # d2 # rest"
    by (auto simp: decimalFixAt_def split: if_splits list.splits)
  have "length (dropWhile isSpace r) \<le> length r" "length (dropWhile isSpace r') \<le> length r'"
    by (rule length_dropWhile_le)+
  with r r' s show ?thesis by simp
qed

function decimalFix :: "string \<Rightarrow> string" where
  \<comment> \<open>the replacement of every match, from left to right\<close>
  "decimalFix s =
     (if s = [] then []
      else case decimalFixAt s of
             Some (replacement, rest) \<Rightarrow> replacement @ decimalFix rest
           | None \<Rightarrow> hd s # decimalFix (tl s))"
  by pat_completeness auto
termination
  by (relation "measure length") (auto simp: decimalFixAt_shorter)

declare decimalFix.simps [simp del]

function dollarFix :: "string \<Rightarrow> string" where
  \<comment> \<open>\<open>s.replace(/\$\s+/g, '$')\<close>\<close>
  "dollarFix [] = []"
| "dollarFix (c # cs) =
     (if c = CHR ''$'' then c # dollarFix (dropWhile isSpace cs) else c # dollarFix cs)"
  by pat_completeness auto
termination
  by (relation "measure length") (auto simp: length_dropWhile_le less_Suc_eq_le)

definition cleanLine :: "string \<Rightarrow> string" where
  \<comment> \<open>the body of the \<open>map\<close> of \<open>preprocessLines\<close>; the two replacements of quotes put
      a quote for itself\<close>
  "cleanLine line =
     (let cleaned = trim (collapseSpaces line);
          cleaned = map (\<lambda>c. if c = CHR ''|'' \<or> c = CHR 0x5C then CHR '' '' else c) cleaned;
          cleaned = decimalFix cleaned;
          cleaned = dollarFix cleaned
      in cleaned)"

definition preprocessLines :: "string list \<Rightarrow> string list" where
  "preprocessLines lines = filter (\<lambda>line. length line > 0) (map cleanLine lines)"

definition splitLines :: "string \<Rightarrow> string list" where
  \<comment> \<open>\<open>rawText.split('\n').map(line => line.trim()).filter(Boolean)\<close>\<close>
  "splitLines rawText' =
     filter (\<lambda>line. line \<noteq> []) (map trim (splitOn (\<lambda>c. c = CHR 0x0A) rawText'))"

subsection \<open>Strategy 1: pattern matching\<close>

definition invoiceNumberPatterns :: "regex list" where
  "invoiceNumberPatterns = [InvoiceNumberLabelled, InvoiceNumberShort, InvoiceNumberStandalone]"

definition datePatterns :: "regex list" where
  "datePatterns = [DateLabelled, DateAnywhere, DateIssued]"

definition timePatterns :: "regex list" where
  "timePatterns = [TimeAnywhere, TimeLabelled]"

fun firstCapture :: "host \<Rightarrow> (string \<Rightarrow> bool) \<Rightarrow> regex list \<Rightarrow> string \<Rightarrow> string option" where
  \<comment> \<open>the loop over the patterns of one field, left by \<open>break\<close> at the first match
      whose entry 1 passes the extra test\<close>
  "firstCapture h ok [] line = None"
| "firstCapture h ok (pattern # patterns) line =
     (case capture h pattern line of
        Some g \<Rightarrow> if ok g then Some g else firstCapture h ok patterns line
      | None \<Rightarrow> firstCapture h ok patterns line)"

definition toUpperAscii :: "string \<Rightarrow> string" where
  \<comment> \<open>\<open>toUpperCase\<close> on \<open>AM\<close>, \<open>PM\<close>, \<open>am\<close> and \<open>pm\<close>\<close>
  "toUpperAscii s =
     map (\<lambda>c. case map_of (zip ''abcdefghijklmnopqrstuvwxyz'' ''ABCDEFGHIJKLMNOPQRSTUVWXYZ'') c of
                 Some u \<Rightarrow> u | None \<Rightarrow> c) s"

definition normalizeTime :: "host \<Rightarrow> string \<Rightarrow> string" where
  "normalizeTime h timeStr =
     (let cleaned = trim (collapseSpaces timeStr)
      in case timeParts h cleaned of
           None \<Rightarrow> cleaned
         | Some (hourStr, minute, ampm) \<Rightarrow>
             (let hour = parseInt hourStr
              in case ampm of
                   Some a \<Rightarrow> numToString hour @ '':'' @ minute @ '' '' @ toUpperAscii a
                 | None \<Rightarrow>
                     if numGt hour 12 then
                       numToString (map_option (\<lambda>x. x - 12) hour) @ '':'' @ minute @ '' PM''
                     else if hour = Some 0 then ''12:'' @ minute @ '' AM''
                     else numToString hour @ '':'' @ minute @ '' ''
                            @ (if numGe hour 12 then ''PM'' else ''AM'')))"

definition basicFieldsOfLine :: "host \<Rightarrow> ExtractedInvoiceData \<Rightarrow> string \<Rightarrow> ExtractedInvoiceData" where
  \<comment> \<open>the body of the loop over the lines of \<open>extractBasicFields\<close>\<close>
  "basicFieldsOfLine h invoiceData line =
     (let invoiceData =
            (if \<not> truthyStr (invoiceNumber invoiceData) then
               (case firstCapture h (\<lambda>g. length g \<ge> 3) invoiceNumberPatterns line of
                  Some g \<Rightarrow> invoiceData\<lparr>invoiceNumber := Some (trim g)\<rparr>
                | None \<Rightarrow> invoiceData)
             else invoiceData);
          invoiceData =
            (if \<not> truthyStr (date invoiceData) then
               (case firstCapture h (\<lambda>g. True) datePatterns line of
                  Some g \<Rightarrow> invoiceData\<lparr>date := Some (IntelligentParser_normalizeDate g)\<rparr>
                | None \<Rightarrow> invoiceData)
             else invoiceData);
          invoiceData =
            (if \<not> truthyStr (time invoiceData) then
               (case firstCapture h (\<lambda>g. True) timePatterns line of
                  Some g \<Rightarrow> invoiceData\<lparr>time := Some (normalizeTime h g)\<rparr>
                | None \<Rightarrow> invoiceData)
             else invoiceData)
      in invoiceData)"

definition extractBasicFields :: "host \<Rightarrow> ExtractedInvoiceData \<Rightarrow> string list \<Rightarrow> ExtractedInvoiceData" where
  "extractBasicFields h invoiceData lines = foldl (basicFieldsOfLine h) invoiceData lines"

subsection \<open>Strategy 2: contextual extraction\<close>

fun firstLineCapture :: "host \<Rightarrow> (string \<Rightarrow> bool) \<Rightarrow> regex list \<Rightarrow> string list \<Rightarrow> string option" where
  "firstLineCapture h ok patterns [] = None"
| "firstLineCapture h ok patterns (line # lines) =
     (case firstCapture h ok patterns line of
        Some g \<Rightarrow> Some g
      | None \<Rightarrow> firstLineCapture h ok patterns lines)"

definition extractVendorWithContext :: "host \<Rightarrow> string list \<Rightarrow> string option" where
  "extractVendorWithContext h lines =
     (case firstLineCapture h (\<lambda>g. length g > 2) [VendorLabelled, VendorNamed] lines of
        Some g \<Rightarrow> Some (trim g)
      | None \<Rightarrow>
          find (\<lambda>line. \<not> test h VendorSkip line \<and> length line > 3 \<and> length line < 50
                       \<and> test h VendorStartsWithLetter line
                       \<and> \<not> test h VendorStartsWithNumber line)
               (take 5 lines))"

fun addressOfTwoLines :: "host \<Rightarrow> string list \<Rightarrow> string option" where
  "addressOfTwoLines h (line1 # line2 # lines) =
     (if test h AddressStreet line1 \<and> test h AddressPostal line2
      then Some (line1 @ '', '' @ line2)
      else addressOfTwoLines h (line2 # lines))"
| "addressOfTwoLines h lines = None"

definition extractAddressWithContext :: "host \<Rightarrow> string list \<Rightarrow> string option" where
  "extractAddressWithContext h lines =
     (case addressOfTwoLines h lines of
        Some a \<Rightarrow> Some a
      | None \<Rightarrow> find (\<lambda>line. test h AddressSingleLine line \<and> length line > 10) lines)"

definition extractContextualFields ::
  "host \<Rightarrow> ExtractedInvoiceData \<Rightarrow> string list \<Rightarrow> string \<Rightarrow> ExtractedInvoiceData" where
  "extractContextualFields h invoiceData lines rawText' =
     (let invoiceData =
            (if \<not> truthyStr (vendor invoiceData)
             then invoiceData\<lparr>vendor := extractVendorWithContext h lines\<rparr> else invoiceData);
          invoiceData =
            (if \<not> truthyStr (vendorAddress invoiceData)
             then invoiceData\<lparr>vendorAddress := extractAddressWithContext h lines\<rparr>
             else invoiceData);
          invoiceData =
            (if \<not> truthyStr (vendorPhone invoiceData) then
               (case capture h Phone rawText' of
                  Some g \<Rightarrow> invoiceData\<lparr>vendorPhone := Some (trim (collapseSpaces g))\<rparr>
                | None \<Rightarrow> invoiceData)
             else invoiceData);
          invoiceData =
            (if \<not> truthyStr (vendorEmail invoiceData) then
               (case capture h Email rawText' of
                  Some g \<Rightarrow> invoiceData\<lparr>vendorEmail := Some g\<rparr>
                | None \<Rightarrow> invoiceData)
             else invoiceData)
      in invoiceData)"

subsection \<open>Strategy 4: amount resolution\<close>

definition amountPatterns :: "regex list" where
  "amountPatterns =
     [AmountDollar, AmountUSD, AmountEuroSign, AmountEUR, AmountDecimal, AmountComma]"

definition detectCurrency :: "host \<Rightarrow> string \<Rightarrow> string option" where
  \<comment> \<open>the test for the Euro sign is between the first two: no string of the model has one\<close>
  "detectCurrency h amountStr =
     (if CHR ''$'' \<in> set amountStr then Some ''USD''
      else if CHR 0xA3 \<in> set amountStr then Some ''GBP''
      else if test h EuropeanFormat amountStr then Some ''EUR''
      else if test h USFormat amountStr then Some ''USD''
      else None)"

definition calculateAmountConfidence :: "host \<Rightarrow> string \<Rightarrow> string \<Rightarrow> nat \<Rightarrow> rat" where
  "calculateAmountConfidence h amountStr fullText position =
     (let confidence = 50;
          contextStart = position - 50;
          contextEnd = min (length fullText) (position + 50);
          context = toLowerCase (drop contextStart (take contextEnd fullText));
          confidence = (if test h ContextTotal context then confidence + 25 else confidence);
          confidence = (if test h ContextSubtotal context then confidence + 20 else confidence);
          confidence = (if test h ContextTax context then confidence + 20 else confidence);
          confidence = (if test h ContextAmount context then confidence + 15 else confidence);
          confidence = (if test h ContextDue context then confidence + 15 else confidence);
          confidence = (if test h DollarFormat amountStr then confidence + 20 else confidence);
          confidence = (if test h PlainFormat amountStr then confidence + 10 else confidence);
          value = IntelligentParser_parseAmount amountStr;
          confidence = (if value < 1 / 100 \<or> value > 5000 then confidence - 20 else confidence);
          confidence = (if includesStr amountStr ''000'' then confidence - 10 else confidence)
      in max 0 (min 100 confidence))"

definition amountsOfPattern :: "host \<Rightarrow> string \<Rightarrow> regex \<Rightarrow> ParsedAmount list" where
  \<comment> \<open>the \<open>while\<close> loop over the matches of one pattern\<close>
  "amountsOfPattern h rawText' pattern =
     concat (map (\<lambda>(match0, match1, index).
        (let amountStr = (case match1 of Some g \<Rightarrow> g | None \<Rightarrow> match0);
             value = IntelligentParser_parseAmount amountStr
         in if value > 0 \<and> value < 10000
            then [\<lparr>value' = value, currency_a = detectCurrency h match0,
                   confidence_a = calculateAmountConfidence h match0 rawText' index,
                   source = match0\<rparr>]
            else []))
       (execAll h pattern rawText'))"

definition bestAmountOf :: "ParsedAmount list \<Rightarrow> ParsedAmount" where
  \<comment> \<open>\<open>reduce\<close> without an initial value, on a list that is not empty\<close>
  "bestAmountOf amounts =
     foldl (\<lambda>best curr. if confidence_a curr > confidence_a best then curr else best)
       (hd amounts) (tl amounts)"

definition assignOfLine ::
  "host \<Rightarrow> ParsedAmount list \<Rightarrow> ExtractedInvoiceData \<Rightarrow> string \<Rightarrow> string \<Rightarrow> ExtractedInvoiceData" where
  \<comment> \<open>the body of the loop of \<open>assignAmountsWithContext\<close>, for \<open>lines[i]\<close> and the line
      after it (the empty string after the last line)\<close>
  "assignOfLine h amounts invoiceData thisLine nextLine =
     (let line = toLowerCase thisLine;
          lineText = toLowerCase (thisLine @ '' '' @ nextLine);
          lineAmounts = filter (\<lambda>a. includesStr lineText (toLowerCase (source a))) amounts
      in if lineAmounts = [] then invoiceData
         else if test h TotalLine line \<and> \<not> truthyNum (total' invoiceData) then
           (let bestAmount = bestAmountOf lineAmounts
            in invoiceData\<lparr>total' := Some (value' bestAmount), currency := currency_a bestAmount\<rparr>)
         else if test h SubtotalLine line \<and> \<not> truthyNum (subtotal invoiceData) then
           (let bestAmount = bestAmountOf lineAmounts
            in invoiceData\<lparr>subtotal := Some (value' bestAmount)\<rparr>)
         else if test h TaxLine line \<and> \<not> truthyNum (tax invoiceData) then
           (let bestAmount = bestAmountOf lineAmounts
            in invoiceData\<lparr>tax := Some (value' bestAmount)\<rparr>)
         else invoiceData)"

fun assignAmountsWithContext ::
  "host \<Rightarrow> ExtractedInvoiceData \<Rightarrow> ParsedAmount list \<Rightarrow> string list \<Rightarrow> ExtractedInvoiceData" where
  "assignAmountsWithContext h invoiceData amounts [] = invoiceData"
| "assignAmountsWithContext h invoiceData amounts (line # lines) =
     assignAmountsWithContext h
       (assignOfLine h amounts invoiceData line (case lines of [] \<Rightarrow> '''' | nextLine # rest \<Rightarrow> nextLine))
       amounts lines"

definition finalizeAmountAssignment ::
  "ExtractedInvoiceData \<Rightarrow> ParsedAmount list \<Rightarrow> ExtractedInvoiceData" where
  "finalizeAmountAssignment invoiceData amounts =
     (let invoiceData =
            (if \<not> truthyNum (total' invoiceData) \<and> amounts \<noteq> [] then
               (let bestAmount = bestAmountOf amounts
                in if confidence_a bestAmount > 50
                   then invoiceData\<lparr>total' := Some (value' bestAmount),
                                      currency := currency_a bestAmount\<rparr>
                   else invoiceData)
             else invoiceData);
          invoiceData =
            (if \<not> truthyStr (currency invoiceData) \<and> amounts \<noteq> [] then
               (let currencies = filter truthyStr (map currency_a amounts)
                in if currencies \<noteq> [] then invoiceData\<lparr>currency := hd currencies\<rparr>
                   else invoiceData)
             else invoiceData)
      in invoiceData)"

definition extractAmountsAdvanced ::
  "host \<Rightarrow> ExtractedInvoiceData \<Rightarrow> string list \<Rightarrow> string \<Rightarrow> ExtractedInvoiceData" where
  "extractAmountsAdvanced h invoiceData lines rawText' =
     (let allAmounts = concat (map (amountsOfPattern h rawText') amountPatterns);
          invoiceData = assignAmountsWithContext h invoiceData allAmounts lines
      in finalizeAmountAssignment invoiceData allAmounts)"

subsection \<open>Strategy 5: line items\<close>

definition extractLineItems :: "host \<Rightarrow> string list \<Rightarrow> InvoiceItem list" where
  "extractLineItems h lines =
     concat (map (\<lambda>line.
        (case capture2 h ItemLine line of
           None \<Rightarrow> []
         | Some (g1, g2) \<Rightarrow>
             (let description = trim g1;
                  amount = IntelligentParser_parseAmount g2
              in if amount > 0 \<and> amount < 200 \<and> \<not> test h ItemKeyword description
                    \<and> length description > 5
                 then [\<lparr>description = description, quantity = Some 1,
                        unitPrice = Some amount, amount = Some amount\<rparr>]
                 else []))) lines)"

subsection \<open>Strategy 6: transaction data and overflow capture\<close>

definition businessDataOfLine :: "host \<Rightarrow> ExtractedInvoiceData \<Rightarrow> string \<Rightarrow> ExtractedInvoiceData" where
  \<comment> \<open>the loop over the four transaction patterns, for one line\<close>
  "businessDataOfLine h invoiceData line =
     (let invoiceData =
            (if \<not> truthyStr (transactionId invoiceData) then
               (case capture h TransactionId line of
                  Some g \<Rightarrow> invoiceData\<lparr>transactionId := Some (trim g)\<rparr>
                | None \<Rightarrow> invoiceData)
             else invoiceData);
          invoiceData =
            (if \<not> truthyStr (authorizationCode invoiceData) then
               (case capture h AuthorizationCode line of
                  Some g \<Rightarrow> invoiceData\<lparr>authorizationCode := Some (trim g)\<rparr>
                | None \<Rightarrow> invoiceData)
             else invoiceData);
          invoiceData =
            (if \<not> truthyStr (cardNumber invoiceData) then
               (case capture h CardNumber line of
                  Some g \<Rightarrow> invoiceData\<lparr>cardNumber := Some (trim g)\<rparr>
                | None \<Rightarrow> invoiceData)
             else invoiceData);
          invoiceData =
            (if \<not> truthyStr (paymentMethod invoiceData) then
               (case capture h PaymentMethod line of
                  Some g \<Rightarrow> invoiceData\<lparr>paymentMethod := Some (trim g)\<rparr>
                | None \<Rightarrow> invoiceData)
             else invoiceData)
      in invoiceData)"

definition collectExtraData :: "host \<Rightarrow> string list \<Rightarrow> string list" where
  \<comment> \<open>the list \<open>extraData\<close> of \<open>extractExtraFields\<close> after its loop\<close>
  "collectExtraData h lines =
     foldl (\<lambda>extraData line.
        if \<not> test h ExtraSkip line \<and> length line > 3 \<and> length line < 100
           \<and> line \<notin> set extraData
        then extraData @ [line] else extraData) [] lines"

definition extractExtraFields :: "host \<Rightarrow> ExtractedInvoiceData \<Rightarrow> string list \<Rightarrow> ExtractedInvoiceData" where
  "extractExtraFields h invoiceData lines =
     (let extraData = collectExtraData h lines;
          invoiceData = (if length extraData > 0
                         then invoiceData\<lparr>extraField1 := Some (extraData ! 0)\<rparr> else invoiceData);
          invoiceData = (if length extraData > 1
                         then invoiceData\<lparr>extraField2 := Some (extraData ! 1)\<rparr> else invoiceData);
          invoiceData = (if length extraData > 2
                         then invoiceData\<lparr>extraField3 := Some (extraData ! 2)\<rparr> else invoiceData);
          invoiceData = (if length extraData > 3
                         then invoiceData\<lparr>extraField4 := Some (extraData ! 3)\<rparr> else invoiceData);
          invoiceData = (if length extraData > 4
                         then invoiceData\<lparr>extraField5 := Some (extraData ! 4)\<rparr> else invoiceData)
      in invoiceData)"

definition extractBusinessData ::
  "host \<Rightarrow> ExtractedInvoiceData \<Rightarrow> string list \<Rightarrow> string \<Rightarrow> ExtractedInvoiceData" where
  "extractBusinessData h invoiceData lines rawText' =
     extractExtraFields h (foldl (businessDataOfLine h) invoiceData lines) lines"

subsection \<open>Post-processing and the whole parse\<close>

definition isVendorChar :: "char \<Rightarrow> bool" where
  \<comment> \<open>the class \<open>[\w\s\-\.'&]\<close>\<close>
  "isVendorChar c \<longleftrightarrow>
     isAlpha c \<or> isDigit c \<or> c = CHR ''_'' \<or> isSpace c \<or> c = CHR ''-'' \<or> c = CHR ''.''
     \<or> c = CHR 0x27 \<or> c = CHR ''&''"

definition validateAndCleanData :: "host \<Rightarrow> ExtractedInvoiceData \<Rightarrow> ExtractedInvoiceData" where
  \<comment> \<open>the comparison of the total with subtotal plus tax only writes to the console\<close>
  "validateAndCleanData h invoiceData =
     (let invoiceData =
            (if truthyStr (vendor invoiceData) then
               (let cleaned = trim (filter isVendorChar (the (vendor invoiceData)))
                in if length cleaned < 2 then invoiceData\<lparr>vendor := None\<rparr>
                   else invoiceData\<lparr>vendor := Some cleaned\<rparr>)
             else invoiceData);
          invoiceData =
            (if truthyStr (date invoiceData) \<and> \<not> isValidDate h (the (date invoiceData))
             then invoiceData\<lparr>date := None\<rparr> else invoiceData)
      in invoiceData)"

definition initialRecord ::
  "host \<Rightarrow> string \<Rightarrow> string option \<Rightarrow> rat option \<Rightarrow> ExtractedInvoiceData" where
  \<comment> \<open>the object literal at the start of \<open>parseInvoiceData\<close>\<close>
  "initialRecord h rawText' processingMethod' confidence' =
     (emptyRecord (randomUUID h))
       \<lparr>rawText := Some rawText', processingMethod := processingMethod',
        confidence := confidence', processingTime := Some 0\<rparr>"

definition strategy ::
  "host \<Rightarrow> string \<Rightarrow> nat \<Rightarrow> ExtractedInvoiceData \<Rightarrow> ExtractedInvoiceData" where
  \<comment> \<open>the \<open>k\<close>-th of the six strategy calls of \<open>parseInvoiceData\<close>, on the cleaned lines\<close>
  "strategy h rawText' k invoiceData =
     (let cleanedLines = preprocessLines (splitLines rawText')
      in if k = 1 then extractBasicFields h invoiceData cleanedLines
         else if k = 2 then extractContextualFields h invoiceData cleanedLines rawText'
         else if k = 3 then extractWithFuzzyMatching invoiceData cleanedLines
         else if k = 4 then extractAmountsAdvanced h invoiceData cleanedLines rawText'
         else if k = 5 then invoiceData\<lparr>items := Some (extractLineItems h cleanedLines)\<rparr>
         else if k = 6 then extractBusinessData h invoiceData cleanedLines rawText'
         else invoiceData)"

fun afterStrategies ::
  "host \<Rightarrow> string \<Rightarrow> string option \<Rightarrow> rat option \<Rightarrow> nat \<Rightarrow> ExtractedInvoiceData" where
  \<comment> \<open>the record after the first \<open>k\<close> strategy calls\<close>
  "afterStrategies h rawText' processingMethod' confidence' 0 =
     initialRecord h rawText' processingMethod' confidence'"
| "afterStrategies h rawText' processingMethod' confidence' (Suc k) =
     strategy h rawText' (Suc k) (afterStrategies h rawText' processingMethod' confidence' k)"

definition parseInvoiceData ::
  "host \<Rightarrow> string \<Rightarrow> string \<Rightarrow> string option \<Rightarrow> rat option \<Rightarrow> ExtractedInvoiceData" where
  "parseInvoiceData h rawText' fileName processingMethod' confidence' =
     (validateAndCleanData h (afterStrategies h rawText' processingMethod' confidence' 6))
       \<lparr>processingTime := Some (parseElapsed h)\<rparr>"

subsection \<open>Fields that keep their value\<close>

text \<open>
  \<open>kept x y\<close>: a field that holds a value \<open>x\<close> holds the same value \<open>y\<close> later.
  \<open>keepsAssigned d d'\<close> says so for every field of the record. \<open>positiveOrUnset\<close>
  describes an amount field that is either \<open>undefined\<close> or a positive number.
\<close>

definition kept :: "'a option \<Rightarrow> 'a option \<Rightarrow> bool" where
  "kept x y \<longleftrightarrow> (x \<noteq> None \<longrightarrow> y = x)"

definition keepsAssigned :: "ExtractedInvoiceData \<Rightarrow> ExtractedInvoiceData \<Rightarrow> bool" where
  "keepsAssigned d d' \<longleftrightarrow>
     id' d' = id' d
     \<and> kept (invoiceNumber d) (invoiceNumber d') \<and> kept (date d) (date d')
     \<and> kept (time d) (time d') \<and> kept (dueDate d) (dueDate d')
     \<and> kept (vendor d) (vendor d') \<and> kept (vendorAddress d) (vendorAddress d')
     \<and> kept (vendorPhone d) (vendorPhone d') \<and> kept (vendorEmail d) (vendorEmail d')
     \<and> kept (billTo d) (billTo d') \<and> kept (billToAddress d) (billToAddress d')
     \<and> kept (subtotal d) (subtotal d') \<and> kept (tax d) (tax d')
     \<and> kept (total' d) (total' d') \<and> kept (currency d) (currency d')
     \<and> kept (transactionId d) (transactionId d')
     \<and> kept (authorizationCode d) (authorizationCode d')
     \<and> kept (terminalId d) (terminalId d') \<and> kept (merchantId d) (merchantId d')
     \<and> kept (cardNumber d) (cardNumber d') \<and> kept (paymentMethod d) (paymentMethod d')
     \<and> kept (extraField1 d) (extraField1 d') \<and> kept (extraField2 d) (extraField2 d')
     \<and> kept (extraField3 d) (extraField3 d') \<and> kept (extraField4 d) (extraField4 d')
     \<and> kept (extraField5 d) (extraField5 d') \<and> kept (items d) (items d')
     \<and> kept (rawText d) (rawText d') \<and> kept (processingMethod d) (processingMethod d')
     \<and> kept (confidence d) (confidence d') \<and> kept (processingTime d) (processingTime d')"

definition positiveOrUnset :: "rat option \<Rightarrow> bool" where
  "positiveOrUnset x = (case x of None \<Rightarrow> True | Some v \<Rightarrow> v > 0)"

definition amountsPositive :: "ExtractedInvoiceData \<Rightarrow> bool" where
  "amountsPositive d \<longleftrightarrow>
     positiveOrUnset (total' d) \<and> positiveOrUnset (subtotal d) \<and> positiveOrUnset (tax d)"

definition keepsSetAmounts :: "ExtractedInvoiceData \<Rightarrow> ExtractedInvoiceData \<Rightarrow> bool" where
  \<comment> \<open>an amount field that passes the test \<open>!field\<close> of the source as set is unchanged\<close>
  "keepsSetAmounts d d' \<longleftrightarrow>
     (truthyNum (total' d) \<longrightarrow> total' d' = total' d)
     \<and> (truthyNum (subtotal d) \<longrightarrow> subtotal d' = subtotal d)
     \<and> (truthyNum (tax d) \<longrightarrow> tax d' = tax d)"

text \<open>
  The fields that each strategy may write, as the function that resets them: two records
  agree on all other fields when they are equal after the reset.
\<close>

definition eraseBasic :: "ExtractedInvoiceData \<Rightarrow> ExtractedInvoiceData" where
  "eraseBasic d = d\<lparr>invoiceNumber := None, date := None, time := None\<rparr>"

definition eraseContextual :: "ExtractedInvoiceData \<Rightarrow> ExtractedInvoiceData" where
  "eraseContextual d =
     d\<lparr>vendor := None, vendorAddress := None, vendorPhone := None, vendorEmail := None\<rparr>"

definition eraseAmounts :: "ExtractedInvoiceData \<Rightarrow> ExtractedInvoiceData" where
  "eraseAmounts d = d\<lparr>total' := None, subtotal := None, tax := None\<rparr>"

definition eraseAmountsCurrency :: "ExtractedInvoiceData \<Rightarrow> ExtractedInvoiceData" where
  "eraseAmountsCurrency d = d\<lparr>total' := None, subtotal := None, tax := None, currency := None\<rparr>"

definition eraseBusiness :: "ExtractedInvoiceData \<Rightarrow> ExtractedInvoiceData" where
  "eraseBusiness d =
     d\<lparr>transactionId := None, authorizationCode := None, cardNumber := None,
       paymentMethod := None, extraField1 := None, extraField2 := None, extraField3 := None,
       extraField4 := None, extraField5 := None\<rparr>"

definition fuzzyKeeps :: "ExtractedInvoiceData \<Rightarrow> ExtractedInvoiceData \<Rightarrow> bool" where
  \<comment> \<open>a set subtotal or tax is unchanged; a set total stays set and does not decrease\<close>
  "fuzzyKeeps d d' \<longleftrightarrow>
     (truthyNum (subtotal d) \<longrightarrow> subtotal d' = subtotal d)
     \<and> (truthyNum (tax d) \<longrightarrow> tax d' = tax d)
     \<and> (truthyNum (total' d) \<longrightarrow> truthyNum (total' d') \<and> the (total' d) \<le> the (total' d'))"

text \<open>
  Two hosts for concrete runs. On a text such as \<open>@@@@@@@@@@@@\<close> no regular expression of
  the six strategies matches the text, a line of it or a part of a line: \<open>quietHost\<close>
  gives these answers. \<open>receiptHost\<close> gives the answers of the regular expressions on the
  strings that the parse of the two lines \<open>subtotal $5\<close> and \<open>$7.25\<close> asks about:
  \<^item> the patterns for the invoice number, the date, the time, the vendor, the telephone
    number, the e-mail address and the transaction data match no line and not the text;
  \<^item> the first line starts with the word \<open>subtotal\<close>, which both skip patterns look for,
    and \<open>/subtotal|sub.total/\<close> finds it there; the second line starts with a dollar sign,
    so neither a skip pattern nor \<open>/^[A-Za-z]/\<close> matches it; no line matches the patterns
    of a total line, of a tax line or of an address;
  \<^item> in the text \<open>/\$(\d{1,6}(?:,\d{3})*\.?\d{0,2})\b/g\<close> finds \<open>$5\<close> at index 9 and \<open>$7.25\<close>
    at index 12, \<open>/\b(\d{1,4}\.\d{2})\b/g\<close> finds \<open>7.25\<close> at index 13, and the four other
    amount patterns find nothing;
  \<^item> the context of each of these amounts is the whole text, which contains \<open>subtotal\<close>
    and with it \<open>total\<close>, and none of \<open>tax\<close>, \<open>vat\<close>, \<open>btw\<close>, \<open>amount\<close> and \<open>due\<close>;
  \<^item> \<open>$7.25\<close> has the form \<open>/^\$\d+\.\d{2}$/\<close>, and \<open>7.25\<close> the forms \<open>/^\d+\.\d{2}$/\<close> and
    \<open>/\d+\.\d{2}/\<close> and not \<open>/\d+,\d{2}/\<close>; \<open>$5\<close> has none of these forms;
  \<^item> the item pattern \<open>/^(.{3,50}?)\s+.*?\$?(\d+\.?\d{0,2})\s*$/\<close> matches the first line with
    the groups \<open>subtotal\<close> and \<open>5\<close>, and not the second line, which has no white space;
    \<open>/(total|subtotal|tax|amount)/i\<close> matches \<open>subtotal\<close>.
\<close>

definition quietHost :: host where
  "quietHost =
     \<lparr>capture = (\<lambda>re s. None), capture2 = (\<lambda>re s. None), test = (\<lambda>re s. False),
      execAll = (\<lambda>re s. []), timeParts = (\<lambda>s. None), isValidDate = (\<lambda>s. True),
      randomUUID = ''00000000-0000-4000-8000-000000000000'', parseElapsed = 0\<rparr>"



section \<open>The processing controller\<close>

text \<open>
  \<open>EnterpriseOCRService.processDocument\<close>. What happens outside the service during one
  call is a parameter of the model, the record \<open>service\<close>:
  \<^item> whether the service is initialized, and the message of the error that \<open>initialize\<close>
    throws (\<open>None\<close> when it succeeds);
  \<^item> for attempt \<open>k\<close>, what \<open>processWithTimeout\<close> around the recognition gives: \<open>Inl\<close> the
    message of the error it is rejected with (a failure of the engine, or
    \<open>OCR processing timeout\<close> when the timer wins), or \<open>Inr\<close> the raw text;
  \<^item> the host of the parser for attempt \<open>k\<close>, the average confidence in the statistics of
    the engine, the identifier drawn for an error result, and the times measured.
  The retry counter and \<open>maxRetries\<close> are integers. The statistics that
  \<open>updateProcessingStats\<close> keeps between documents, and the waiting between two attempts,
  do not influence the result and are left out. An exception cannot leave the method: the
  call of \<open>initialize\<close> and the body of the loop are inside \<open>try\<close> blocks.
\<close>

record File =
  file_name :: string
  file_type :: string
  file_size :: nat

record ProcessingOptions =
  enableAdvancedPreprocessing :: "bool option"
  maxRetries :: "int option"
  timeoutMs :: "rat option"
  enableFuzzyMatching :: "bool option"
  enableContextualParsing :: "bool option"

record Performance =
  totalTime :: rat
  ocrTime :: rat
  parsingTime :: rat
  attemptsUsed :: int

record ProcessingResult =
  data :: ExtractedInvoiceData
  success :: bool
  error :: "string option"
  performance :: Performance

record service =
  isInitialized :: bool
  initializeError :: "string option"
  ocrOutcome :: "int \<Rightarrow> string + string"
  parserHost :: "int \<Rightarrow> host"
  averageConfidence :: rat
  errorUUID :: string
  ocrElapsed :: "int \<Rightarrow> rat"
  parsingElapsed :: "int \<Rightarrow> rat"
  totalElapsed :: rat

record loopState =
  \<comment> \<open>the variables declared before the loop\<close>
  lastError :: "string option"
  ocrTime_s :: rat
  parsingTime_s :: rat
  attemptsUsed_s :: int

datatype step =
    Return ProcessingResult
  | Continue loopState
  | Break loopState

definition allowedTypes :: "string list" where
  "allowedTypes =
     [''image/jpeg'', ''image/jpg'', ''image/png'', ''image/gif'', ''image/bmp'',
      ''image/tiff'', ''image/webp'', ''application/pdf'']"

fun joinWith :: "string \<Rightarrow> string list \<Rightarrow> string" where
  "joinWith sep [] = []"
| "joinWith sep [x] = x"
| "joinWith sep (x # y # ys) = x @ sep @ joinWith sep (y # ys)"

definition validateFile :: "File \<Rightarrow> string option" where
  "validateFile file =
     (if file_size file > 50 * 1024 * 1024 then Some ''File size exceeds 50MB limit''
      else if file_type file \<notin> set allowedTypes then
        Some (''Unsupported file type: '' @ file_type file @ ''. Supported types: ''
              @ joinWith '', '' allowedTypes)
      else if file_name file = [] \<or> length (trim (file_name file)) = 0 then
        Some ''Invalid file name''
      else None)"

definition toFixed1 :: "rat \<Rightarrow> string" where
  \<comment> \<open>\<open>x.toFixed(1)\<close>\<close>
  "toFixed1 x =
     (let n = nat (mathRound (\<bar>x\<bar> * 10));
          digits = natToString (n div 10) @ ''.'' @ natToString (n mod 10)
      in if x < 0 then CHR ''-'' # digits else digits)"

definition assessDataQuality :: "ExtractedInvoiceData \<Rightarrow> rat" where
  "assessDataQuality d =
     (let score = 0; maxScore = 0;
          (score, maxScore) = (if truthyNum (total' d) then (score + 25, maxScore + 25) else (score, maxScore));
          (score, maxScore) = (if truthyStr (vendor d) then (score + 20, maxScore + 20) else (score, maxScore));
          (score, maxScore) = (if truthyStr (date d) then (score + 15, maxScore + 15) else (score, maxScore));
          (score, maxScore) = (if truthyNum (subtotal d) then (score + 10, maxScore + 10) else (score, maxScore));
          (score, maxScore) = (if truthyNum (tax d) then (score + 10, maxScore + 10) else (score, maxScore));
          maxScore = maxScore + 50;
          (score, maxScore) =
            (if truthyStr (rawText d) \<and> length (the (rawText d)) > 100
             then (score + 10, maxScore + 10) else (score, maxScore));
          (score, maxScore) = (if truthyStr (invoiceNumber d) then (score + 5, maxScore + 5) else (score, maxScore));
          (score, maxScore) = (if truthyStr (time d) then (score + 5, maxScore + 5) else (score, maxScore));
          (score, maxScore) =
            (if truthyNum (total' d) \<and> truthyNum (subtotal d) \<and> truthyNum (tax d) then
               (let calculatedTotal = the (subtotal d) + the (tax d);
                    difference = \<bar>the (total' d) - calculatedTotal\<bar> / the (total' d)
                in (if difference < 5 / 100 then score + 10 else score, maxScore + 10))
             else (score, maxScore));
          score =
            (if truthyNum (confidence d) \<and> the (confidence d) > 70
             then score + min 15 ((the (confidence d) - 70) * (1 / 2)) else score);
          maxScore = maxScore + 15
      in if maxScore > 0 then score / maxScore * 100 else 0)"

definition isResultAcceptable :: "ExtractedInvoiceData \<Rightarrow> rat \<Rightarrow> bool \<Rightarrow> bool" where
  "isResultAcceptable d qualityScore isLastAttempt =
     (let minQualityScore = (if isLastAttempt then 30 else 60);
          hasEssentialData = (truthyNum (total' d) \<or> truthyStr (vendor d));
          hasSubstantialText = (truthyStr (rawText d) \<and> length (the (rawText d)) > 50)
      in qualityScore \<ge> minQualityScore \<and> hasEssentialData \<and> hasSubstantialText)"

definition createErrorResult ::
  "service \<Rightarrow> string \<Rightarrow> string option \<Rightarrow> Performance option \<Rightarrow> ProcessingResult" where
  \<comment> \<open>\<open>error\<close> is the message of the error object, \<open>None\<close> for \<open>null\<close> or a missing
      argument; without \<open>performance\<close> the total time is measured\<close>
  "createErrorResult w message errorMessage performance' =
     (let totalTime' = (case performance' of None \<Rightarrow> totalElapsed w | Some p \<Rightarrow> totalTime p)
      in \<lparr>data = (emptyRecord (errorUUID w))
                  \<lparr>rawText := Some '''', processingTime := Some totalTime'\<rparr>,
          success = False,
          error = Some (message @ (case errorMessage of None \<Rightarrow> '''' | Some m \<Rightarrow> '': '' @ m)),
          performance =
            \<lparr>totalTime = totalTime',
             ocrTime = (case performance' of None \<Rightarrow> 0 | Some p \<Rightarrow> ocrTime p),
             parsingTime = (case performance' of None \<Rightarrow> 0 | Some p \<Rightarrow> parsingTime p),
             attemptsUsed = (case performance' of None \<Rightarrow> 0 | Some p \<Rightarrow> attemptsUsed p)\<rparr>\<rparr>)"

definition catchBlock :: "int \<Rightarrow> int \<Rightarrow> string \<Rightarrow> loopState \<Rightarrow> step" where
  "catchBlock maxRetries' attempt message st =
     (let st = st\<lparr>lastError := Some message\<rparr>
      in if attempt = maxRetries' then Break st else Continue st)"

definition tryAttempt :: "service \<Rightarrow> File \<Rightarrow> int \<Rightarrow> int \<Rightarrow> loopState \<Rightarrow> step" where
  \<comment> \<open>the \<open>try\<close> statement in the body of the loop, after \<open>attemptsUsed\<close> is set\<close>
  "tryAttempt w file maxRetries' attempt st =
     (case ocrOutcome w attempt of
        Inl message \<Rightarrow> catchBlock maxRetries' attempt message st
      | Inr rawText' \<Rightarrow>
          (let st = st\<lparr>ocrTime_s := ocrElapsed w attempt\<rparr>
           in if rawText' = [] \<or> length (trim rawText') < 10 then
                catchBlock maxRetries' attempt ''OCR extracted insufficient text'' st
              else
                (let invoiceData =
                       parseInvoiceData (parserHost w attempt) rawText' (file_name file)
                         (Some ''enterprise-multi-engine'') (Some (averageConfidence w));
                     st = st\<lparr>parsingTime_s := parsingElapsed w attempt\<rparr>;
                     qualityScore = assessDataQuality invoiceData;
                     isAcceptable =
                       isResultAcceptable invoiceData qualityScore (attempt = maxRetries')
                 in if isAcceptable then
                      Return \<lparr>data = invoiceData, success = True, error = None,
                              performance =
                                \<lparr>totalTime = totalElapsed w, ocrTime = ocrTime_s st,
                                 parsingTime = parsingTime_s st,
                                 attemptsUsed = attemptsUsed_s st\<rparr>\<rparr>
                    else if attempt = maxRetries' then
                      Return \<lparr>data = invoiceData, success = False,
                              error = Some (''Low quality result ('' @ toFixed1 qualityScore
                                            @ ''/100) after ''
                                            @ numToString (Some (attemptsUsed_s st))
                                            @ '' attempts''),
                              performance =
                                \<lparr>totalTime = totalElapsed w, ocrTime = ocrTime_s st,
                                 parsingTime = parsingTime_s st,
                                 attemptsUsed = attemptsUsed_s st\<rparr>\<rparr>
                    else Continue st)))"

definition allAttemptsFailed :: "service \<Rightarrow> loopState \<Rightarrow> ProcessingResult" where
  \<comment> \<open>the statement after the loop\<close>
  "allAttemptsFailed w st =
     createErrorResult w
       (''Processing failed after '' @ numToString (Some (attemptsUsed_s st)) @ '' attempts'')
       (lastError st)
       (Some \<lparr>totalTime = 0, ocrTime = ocrTime_s st, parsingTime = parsingTime_s st,
              attemptsUsed = attemptsUsed_s st\<rparr>)"

function attemptLoop :: "service \<Rightarrow> File \<Rightarrow> int \<Rightarrow> int \<Rightarrow> loopState \<Rightarrow> ProcessingResult" where
  "attemptLoop w file maxRetries' attempt st =
     (if attempt \<le> maxRetries' then
        (case tryAttempt w file maxRetries' attempt (st\<lparr>attemptsUsed_s := attempt + 1\<rparr>) of
           Return result \<Rightarrow> result
         | Continue st' \<Rightarrow> attemptLoop w file maxRetries' (attempt + 1) st'
         | Break st' \<Rightarrow> allAttemptsFailed w st')
      else allAttemptsFailed w st)"
  by pat_completeness auto
termination
  by (relation "measure (\<lambda>(w, file, maxRetries', attempt, st). nat (maxRetries' + 1 - attempt))") auto

declare attemptLoop.simps [simp del]

definition resolvedMaxRetries :: "ProcessingOptions \<Rightarrow> int" where
  \<comment> \<open>\<open>opts.maxRetries\<close>: the default 2 when the caller gives none\<close>
  "resolvedMaxRetries options = (case maxRetries options of None \<Rightarrow> 2 | Some n \<Rightarrow> n)"

definition processDocument :: "service \<Rightarrow> File \<Rightarrow> ProcessingOptions \<Rightarrow> ProcessingResult" where
  "processDocument w file options =
     (case (if isInitialized w then None else initializeError w) of
        Some message \<Rightarrow> createErrorResult w ''Initialization failed'' (Some message) None
      | None \<Rightarrow>
          (case validateFile file of
             Some validationError \<Rightarrow> createErrorResult w validationError None None
           | None \<Rightarrow>
               attemptLoop w file (resolvedMaxRetries options) 0
                 \<lparr>lastError = None, ocrTime_s = 0, parsingTime_s = 0, attemptsUsed_s = 0\<rparr>))"

definition acceptedAt :: "service \<Rightarrow> File \<Rightarrow> int \<Rightarrow> int \<Rightarrow> bool" where
  \<comment> \<open>attempt \<open>k\<close> yields a text of at least 10 characters whose record is acceptable\<close>
  "acceptedAt w file maxRetries' k =
     (case ocrOutcome w k of
        Inl message \<Rightarrow> False
      | Inr rawText' \<Rightarrow>
          \<not> (rawText' = [] \<or> length (trim rawText') < 10)
          \<and> (let invoiceData =
                    parseInvoiceData (parserHost w k) rawText' (file_name file)
                      (Some ''enterprise-multi-engine'') (Some (averageConfidence w))
              in isResultAcceptable invoiceData (assessDataQuality invoiceData) (k = maxRetries')))"

definition extractedAt :: "service \<Rightarrow> File \<Rightarrow> int \<Rightarrow> ExtractedInvoiceData option" where
  \<comment> \<open>the record that attempt \<open>k\<close> extracts, \<open>None\<close> when the attempt raises an error\<close>
  "extractedAt w file k =
     (case ocrOutcome w k of
        Inl message \<Rightarrow> None
      | Inr rawText' \<Rightarrow>
          if rawText' = [] \<or> length (trim rawText') < 10 then None
          else Some (parseInvoiceData (parserHost w k) rawText' (file_name file)
                       (Some ''enterprise-multi-engine'') (Some (averageConfidence w))))"

definition attemptFails :: "service \<Rightarrow> File \<Rightarrow> int \<Rightarrow> bool" where
  \<comment> \<open>attempt \<open>k\<close> raises an error (a failure of the engine, a timeout, too little text),
      or extracts a record whose quality score is below 30, the threshold of the final
      attempt\<close>
  "attemptFails w file k =
     (case extractedAt w file k of
        None \<Rightarrow> True
      | Some invoiceData \<Rightarrow> assessDataQuality invoiceData < 30)"

subsection \<open>A concrete run\<close>

text \<open>
  A document for which the first attempt recognizes the twelve characters
  \<open>@@@@@@@@@@@@\<close> and the two other attempts time out. No regular expression of the
  parser matches in this text, so \<open>quietHost\<close> is the host of the parser on it. For
  \<open>garbledService\<close> every attempt recognizes these twelve characters.
\<close>

definition exampleFile :: File where
  "exampleFile = \<lparr>file_name = ''receipt.png'', file_type = ''image/png'', file_size = 1024\<rparr>"

definition defaultOptions :: ProcessingOptions where
  \<comment> \<open>the empty options object\<close>
  "defaultOptions =
     \<lparr>enableAdvancedPreprocessing = None, maxRetries = None, timeoutMs = None,
      enableFuzzyMatching = None, enableContextualParsing = None\<rparr>"

definition exampleService :: service where
  "exampleService =
     \<lparr>isInitialized = True, initializeError = None,
      ocrOutcome = (\<lambda>k. if k = 0 then Inr ''@@@@@@@@@@@@'' else Inl ''OCR processing timeout''),
      parserHost = (\<lambda>k. quietHost),
      averageConfidence = 0,
      errorUUID = ''00000000-0000-4000-8000-000000000001'',
      ocrElapsed = (\<lambda>k. 1500), parsingElapsed = (\<lambda>k. 2), totalElapsed = 4000\<rparr>"

definition garbledService :: service where
  "garbledService =
     \<lparr>isInitialized = True, initializeError = None,
      ocrOutcome = (\<lambda>k. Inr ''@@@@@@@@@@@@''),
      parserHost = (\<lambda>k. quietHost),
      averageConfidence = 0,
      errorUUID = ''00000000-0000-4000-8000-000000000001'',
      ocrElapsed = (\<lambda>k. 1500), parsingElapsed = (\<lambda>k. 2), totalElapsed = 4000\<rparr>"

section \<open>Properties of the edit-distance similarity\<close>

text \<open>The recurrence of the matrix as a function of the two prefixes, read from their ends.\<close>

fun lev :: "'a list \<Rightarrow> 'a list \<Rightarrow> nat" where
  "lev [] ys = length ys"
| "lev (x # xs) [] = length (x # xs)"
| "lev (x # xs) (y # ys) =
     min (min (lev xs (y # ys) + 1) (lev (x # xs) ys + 1)) (lev xs ys + (if x = y then 0 else 1))"

lemma lev_Nil2 [simp]: "lev xs [] = length xs"
  by (cases xs) simp_all

lemma fillRow_lev:
  "fillRow c ds (map (\<lambda>q. lev a (rev (pre @ q))) (prefixes ds)) (lev (c # a) (rev pre))
     = map (\<lambda>q. lev (c # a) (rev (pre @ q))) (tl (prefixes ds))"
proof (induction ds arbitrary: pre)
  case Nil
  show ?case by simp
next
  case (Cons d ds)
  obtain ps where ps: "prefixes ds = [] # ps" by (cases ds) auto
  let ?v = "lev (c # a) (rev (pre @ [d]))"
  have v: "min (min (lev a (rev (pre @ [d])) + 1) (lev (c # a) (rev pre) + 1))
               (lev a (rev pre) + (if c = d then 0 else 1)) = ?v"
    by simp
  have "fillRow c (d # ds) (map (\<lambda>q. lev a (rev (pre @ q))) (prefixes (d # ds))) (lev (c # a) (rev pre))
      = ?v # fillRow c ds (map (\<lambda>q. lev a (rev ((pre @ [d]) @ q))) (prefixes ds)) ?v"
    using v by (simp add: ps Let_def comp_def del: lev.simps)
  also have "\<dots> = ?v # map (\<lambda>q. lev (c # a) (rev ((pre @ [d]) @ q))) (tl (prefixes ds))"
    by (simp only: Cons.IH)
  also have "\<dots> = map (\<lambda>q. lev (c # a) (rev (pre @ q))) (tl (prefixes (d # ds)))"
    by (simp add: ps comp_def)
  finally show ?case .
qed

lemma fillMatrix_lev:
  "fillMatrix cs str2 (map (\<lambda>q. lev (rev pfx) (rev q)) (prefixes str2)) (length pfx + 1)
     = map (\<lambda>q. lev (rev (pfx @ cs)) (rev q)) (prefixes str2)"
proof (induction cs arbitrary: pfx)
  case Nil
  show ?case by simp
next
  case (Cons c cs)
  obtain ps where ps: "prefixes str2 = [] # ps" by (cases str2) auto
  let ?row = "map (\<lambda>q. lev (rev pfx) (rev q)) (prefixes str2)"
  have row: "(length pfx + 1) # fillRow c str2 ?row (length pfx + 1)
        = map (\<lambda>q. lev (rev (pfx @ [c])) (rev q)) (prefixes str2)"
    using fillRow_lev [of c str2 "rev pfx" "[]"] by (simp add: ps)
  have "fillMatrix (c # cs) str2 ?row (length pfx + 1)
      = fillMatrix cs str2 ((length pfx + 1) # fillRow c str2 ?row (length pfx + 1)) (length (pfx @ [c]) + 1)"
    by simp
  also have "\<dots> = map (\<lambda>q. lev (rev ((pfx @ [c]) @ cs)) (rev q)) (prefixes str2)"
    unfolding row by (rule Cons.IH)
  finally show ?case by simp
qed

lemma prefixes_upt: "map length (prefixes xs) = [0..<Suc (length xs)]"
proof (induction xs)
  case Nil
  show ?case by simp
next
  case (Cons x xs)
  have step: "[0..<Suc (Suc (length xs))] = 0 # [Suc 0..<Suc (Suc (length xs))]"
    by (rule upt_conv_Cons) simp
  have "map length (prefixes (x # xs)) = 0 # map Suc (map length (prefixes xs))"
    by (simp add: comp_def)
  also have "\<dots> = 0 # map Suc [0..<Suc (length xs)]"
    by (simp only: Cons.IH)
  also have "\<dots> = 0 # [Suc 0..<Suc (Suc (length xs))]"
    by (simp only: map_Suc_upt)
  also have "\<dots> = [0..<Suc (length (x # xs))]"
    using step by (simp del: upt_Suc)
  finally show ?case .
qed

lemma levenshtein_lev: "levenshtein str1 str2 = lev (rev str1) (rev str2)"
proof -
  have "map (\<lambda>q. lev (rev []) (rev q)) (prefixes str2) = [0..<length str2 + 1]"
    using prefixes_upt [of str2] by (simp add: comp_def del: upt_Suc)
  then have "fillMatrix str1 str2 [0..<length str2 + 1] 1
      = map (\<lambda>q. lev (rev str1) (rev q)) (prefixes str2)"
    using fillMatrix_lev [of str1 str2 "[]"] by (simp del: upt_Suc)
  then show ?thesis
    by (simp add: levenshtein_def last_map del: upt_Suc)
qed

lemma lev_sym: "lev xs ys = lev ys xs"
  by (induction xs ys rule: lev.induct) (simp_all add: min.commute min.left_commute eq_commute)

lemma lev_refl: "lev xs xs = 0"
  by (induction xs) simp_all

lemma lev_le_max: "lev xs ys \<le> max (length xs) (length ys)"
  by (induction xs ys rule: lev.induct) (auto simp: min_def max_def)

lemma levenshtein_sym: "levenshtein s1 s2 = levenshtein s2 s1"
  by (simp add: levenshtein_lev lev_sym)

lemma levenshtein_refl: "levenshtein s s = 0"
  by (simp add: levenshtein_lev lev_refl)

lemma levenshtein_le_max: "levenshtein s1 s2 \<le> max (length s1) (length s2)"
  using lev_le_max [of "rev s1" "rev s2"] by (simp add: levenshtein_lev)

text \<open>
  Claim C10. For all strings \<open>s1\<close> and \<open>s2\<close>, \<open>calculateSimilarity s1 s2\<close> lies
  between 0 and 1, it is symmetric in its two arguments, and it is 1 on two equal strings,
  the two empty strings included; so the threshold test of \<open>fuzzyMatch\<close> is a comparison
  of a number of the unit interval with 0.7 on every input.
\<close>

theorem calculateSimilarity_unit_interval_symmetric:
  "0 \<le> calculateSimilarity s1 s2 \<and> calculateSimilarity s1 s2 \<le> 1
   \<and> calculateSimilarity s1 s2 = calculateSimilarity s2 s1
   \<and> calculateSimilarity s1 s1 = 1
   \<and> calculateSimilarity ([] :: 'a list) [] = 1
   \<and> fuzzyMatch s1 s2 = (7 / 10 \<le> calculateSimilarity s1 s2)"
proof -
  have le: "(of_nat (levenshtein s1 s2) :: rat) \<le> of_nat (max (length s1) (length s2))"
    using levenshtein_le_max [of s1 s2] by (simp only: of_nat_le_iff)
  have bounds: "0 \<le> calculateSimilarity s1 s2 \<and> calculateSimilarity s1 s2 \<le> 1"
  proof (cases "max (length s1) (length s2) = 0")
    case True
    then show ?thesis by (simp add: calculateSimilarity_def)
  next
    case False
    then have pos: "(0 :: rat) < of_nat (max (length s1) (length s2))"
      by (simp only: of_nat_0_less_iff)
    have eq: "calculateSimilarity s1 s2
        = (of_nat (max (length s1) (length s2)) - of_nat (levenshtein s1 s2))
            / of_nat (max (length s1) (length s2))"
      using False by (simp add: calculateSimilarity_def Let_def)
    show ?thesis
      unfolding eq using le pos by (simp add: divide_le_eq_1)
  qed
  have sym: "calculateSimilarity s1 s2 = calculateSimilarity s2 s1"
    by (simp add: calculateSimilarity_def Let_def levenshtein_sym [of s1 s2] max.commute)
  have refl: "calculateSimilarity s1 s1 = 1"
    by (simp add: calculateSimilarity_def Let_def levenshtein_refl)
  have empty: "calculateSimilarity ([] :: 'a list) [] = 1"
    by (simp add: calculateSimilarity_def)
  have thr: "fuzzyMatch s1 s2 = (7 / 10 \<le> calculateSimilarity s1 s2)"
    by (simp add: fuzzyMatch_def fuzzyMatchThreshold_def)
  from bounds sym refl empty thr show ?thesis by blast
qed

section \<open>Properties of amount parsing\<close>

lemmas parseFloat_simps =
  parseFloat_def signOf_def exponentPart_def isDigit_def isSpace_def digitsValue_def
  digitValue_def

lemma IntelligentParser_parseAmount_dollar:
  "IntelligentParser_parseAmount ''$64.00'' = 64"
  by (simp add: IntelligentParser_parseAmount_def parseFloat_simps mathRound_def
      lastIndexOf_def floor_eq_iff)

lemma IntelligentParser_parseAmount_european:
  "IntelligentParser_parseAmount ''1.234,56'' = 123 / 100"
  by (simp add: IntelligentParser_parseAmount_def parseFloat_simps mathRound_def
      lastIndexOf_def floor_eq_iff)

lemma IntelligentParser_parseAmount_comma:
  "IntelligentParser_parseAmount ''64,00'' = 6400"
  by (simp add: IntelligentParser_parseAmount_def parseFloat_simps mathRound_def
      lastIndexOf_def floor_eq_iff)

lemma OCRService_parseAmount_dollar: "OCRService_parseAmount ''$64.00'' = 64"
  by (simp add: OCRService_parseAmount_def endsCommaTwoDigits_def parseFloat_simps)

lemma OCRService_parseAmount_european: "OCRService_parseAmount ''1.234,56'' = 123456 / 100"
  by (simp add: OCRService_parseAmount_def endsCommaTwoDigits_def parseFloat_simps)

lemma OCRService_parseAmount_comma: "OCRService_parseAmount ''64,00'' = 64"
  by (simp add: OCRService_parseAmount_def endsCommaTwoDigits_def parseFloat_simps)

lemma OptimizedOCRService_parseAmount_dollar:
  "OptimizedOCRService_parseAmount ''$64.00'' = 64"
  by (simp add: OptimizedOCRService_parseAmount_def parseFloat_simps mathRound_def floor_eq_iff)

lemma OptimizedOCRService_parseAmount_european:
  "OptimizedOCRService_parseAmount ''1.234,56'' = 123 / 100"
  by (simp add: OptimizedOCRService_parseAmount_def parseFloat_simps mathRound_def floor_eq_iff)

lemma OptimizedOCRService_parseAmount_comma:
  "OptimizedOCRService_parseAmount ''64,00'' = 6400"
  by (simp add: OptimizedOCRService_parseAmount_def parseFloat_simps mathRound_def floor_eq_iff)

text \<open>
  Claim C1. The claim gives three reference values for each of the three \<open>parseAmount\<close>
  methods: 1234.56 for \<open>1.234,56\<close>, 64.00 for \<open>$64.00\<close> and 64.00 for \<open>64,00\<close>.
  The theorem evaluates the nine calls. \<open>OCRService.parseAmount\<close> returns the three
  reference values. \<open>IntelligentParser.parseAmount\<close> and
  \<open>OptimizedOCRService.parseAmount\<close> return 64 for \<open>$64.00\<close>, but 1.23 for
  \<open>1.234,56\<close> and 6400 for \<open>64,00\<close>: the comma is deleted before the branches for
  the European format test for it. Each method is a function of its argument, so two
  calls on the same string return the same value.
\<close>

theorem parseAmount_reference_values:
  "OCRService_parseAmount ''1.234,56'' = 123456 / 100
   \<and> OCRService_parseAmount ''$64.00'' = 64
   \<and> OCRService_parseAmount ''64,00'' = 64
   \<and> IntelligentParser_parseAmount ''$64.00'' = 64
   \<and> IntelligentParser_parseAmount ''1.234,56'' = 123 / 100
   \<and> IntelligentParser_parseAmount ''64,00'' = 6400
   \<and> OptimizedOCRService_parseAmount ''$64.00'' = 64
   \<and> OptimizedOCRService_parseAmount ''1.234,56'' = 123 / 100
   \<and> OptimizedOCRService_parseAmount ''64,00'' = 6400"
  by (simp only: IntelligentParser_parseAmount_dollar IntelligentParser_parseAmount_european
      IntelligentParser_parseAmount_comma OCRService_parseAmount_dollar
      OCRService_parseAmount_european OCRService_parseAmount_comma
      OptimizedOCRService_parseAmount_dollar OptimizedOCRService_parseAmount_european
      OptimizedOCRService_parseAmount_comma simp_thms)

section \<open>Properties of date normalization\<close>






section \<open>Properties of the quality score\<close>

lemma calculateQualityScore_eq:
  "calculateQualityScore text' confidence' =
     max 0 (min 100
       ((case confidence' of None \<Rightarrow> 0 | Some c \<Rightarrow> c)
        + (if testMonetary text' then 15 else 0)
        + 3 * of_nat (foundReceiptWords text')
        + (if 50 < length text' \<and> length text' < 5000 then 5 else 0)
        - (if 10 * specialCharCount text' > length text'
           then of_int (mathRound (20 * (of_nat (specialCharCount text') / of_nat (length text'))))
           else 0)))"
proof -
  define r :: rat where "r = of_nat (specialCharCount text') / of_nat (length text')"
  have ratio: "(r > 1 / 10) = (10 * specialCharCount text' > length text')" if "text' \<noteq> []"
  proof -
    have pos: "(0 :: rat) < of_nat (length text')" using that by simp
    have "(r > 1 / 10) = ((of_nat (length text') :: rat) < of_nat (10 * specialCharCount text'))"
      unfolding r_def using pos by (simp add: field_simps)
    then show ?thesis by (simp only: of_nat_less_iff)
  qed
  have zero: "specialCharCount [] = 0"
    by (simp add: specialCharCount_def)
  have money: "(if b then x + 15 else x) = x + (if b then 15 else 0)" for b and x :: rat
    by simp
  have band: "(if b then x + 5 else x) = x + (if b then 5 else 0)" for b and x :: rat
    by simp
  have found: "(if 0 < n then x + of_nat (n * 3) else x) = x + 3 * of_nat n" for n and x :: rat
    by simp
  have penalty:
    "(case (if length text' = 0 then None else Some r) of
        None \<Rightarrow> x
      | Some q \<Rightarrow> if q > 1 / 10 then x - of_int (mathRound (q * 20)) else x)
     = x - (if 10 * specialCharCount text' > length text'
            then of_int (mathRound (20 * r)) else 0)" for x :: rat
  proof (cases "text' = []")
    case True
    then show ?thesis by (simp add: zero)
  next
    case False
    then show ?thesis using ratio [OF False] by (simp add: mult.commute)
  qed
  show ?thesis
    unfolding calculateQualityScore_def Let_def r_def [symmetric] money band found penalty
    by (simp only: r_def gr0_conv_Suc [symmetric])
qed

lemma toLowerCase_receiptWords: "map toLowerCase receiptWords = receiptWords"
  by code_simp

lemma distinct_receiptWords: "distinct receiptWords"
  by (simp add: receiptWords_def)

lemma foundReceiptWords_card:
  "foundReceiptWords text' =
     card {word. word \<in> set receiptWords \<and> includesStr (toLowerCase text') word}"
proof -
  have "length (filter (\<lambda>word. includesStr (toLowerCase text') word) (map toLowerCase receiptWords))
      = length (filter (\<lambda>word. includesStr (toLowerCase text') (toLowerCase word)) receiptWords)"
    by (simp only: length_filter_map comp_def)
  then have "foundReceiptWords text'
      = length (filter (\<lambda>word. includesStr (toLowerCase text') word) receiptWords)"
    by (simp only: foundReceiptWords_def toLowerCase_receiptWords)
  also have "\<dots> = card (set (filter (\<lambda>word. includesStr (toLowerCase text') word) receiptWords))"
    using distinct_receiptWords by (simp only: distinct_card distinct_filter)
  also have "set (filter (\<lambda>word. includesStr (toLowerCase text') word) receiptWords)
      = {word. word \<in> set receiptWords \<and> includesStr (toLowerCase text') word}"
    by auto
  finally show ?thesis .
qed

lemma floor_three_halves: "\<lfloor>3 / 2 :: rat\<rfloor> = 1"
  by (simp add: floor_eq_iff)

lemma foundReceiptWords_example: "foundReceiptWords ''abcdefghijklmnopqrs#'' = 0"
  by code_simp

lemma testMonetary_example: "testMonetary ''abcdefghijklmnopqrs#'' = False"
  by code_simp

lemma specialCharCount_example: "specialCharCount ''abcdefghijklmnopqrs#'' = 1"
  by code_simp

text \<open>
  Claim C6, as stated: the score subtracts \<open>round(20 \<times> specialCharRatio)\<close> for every text.
  \<open>claimedQualityScore\<close> is that formula. The code subtracts only when the ratio is above
  0.1. On the 20 characters \<open>abcdefghijklmnopqrs#\<close> with confidence 50 the ratio is 0.05:
  the formula of the claim gives 49 and the code returns 50.
\<close>

theorem calculateQualityScore_penalty_counterexample:
  "calculateQualityScore ''abcdefghijklmnopqrs#'' (Some 50) = 50
   \<and> claimedQualityScore ''abcdefghijklmnopqrs#'' (Some 50) = 49"
proof -
  have code: "calculateQualityScore ''abcdefghijklmnopqrs#'' (Some 50) = 50"
    by (simp add: calculateQualityScore_def foundReceiptWords_example testMonetary_example
        specialCharCount_example del: testMonetary.simps)
  have claimed: "claimedQualityScore ''abcdefghijklmnopqrs#'' (Some 50) = 49"
    by (simp add: claimedQualityScore_def foundReceiptWords_example testMonetary_example
        specialCharCount_example mathRound_def floor_three_halves del: testMonetary.simps)
  from code claimed show ?thesis by simp
qed

text \<open>
  Claim C6, amended. For every text and confidence, \<open>calculateQualityScore\<close> is the
  confidence (0 when it is absent), plus 15 when the text has a match of the monetary
  pattern, plus 3 for each distinct receipt word that the lowercased text includes, plus 5
  when the length of the text is above 50 and below 5000, minus
  \<open>round(20 \<times> specialCharRatio)\<close> when the text is not empty and the ratio of its special
  characters is above 0.1, and minus nothing otherwise; the result is clamped to the
  interval from 0 to 100.
\<close>

theorem calculateQualityScore_closed_form:
  "calculateQualityScore text' confidence' =
     max 0 (min 100
       ((case confidence' of None \<Rightarrow> 0 | Some c \<Rightarrow> c)
        + (if testMonetary text' then 15 else 0)
        + 3 * of_nat (card {word. word \<in> set receiptWords \<and> includesStr (toLowerCase text') word})
        + (if 50 < length text' \<and> length text' < 5000 then 5 else 0)
        - (if text' \<noteq> [] \<and> of_nat (specialCharCount text') / of_nat (length text') > (1 / 10 :: rat)
           then of_int (mathRound (20 * (of_nat (specialCharCount text') / of_nat (length text'))))
           else 0)))"
proof -
  have ratio: "(text' \<noteq> [] \<and> of_nat (specialCharCount text') / of_nat (length text') > (1 / 10 :: rat))
      = (10 * specialCharCount text' > length text')"
  proof (cases "text' = []")
    case True
    then show ?thesis by (simp add: specialCharCount_def)
  next
    case False
    then have pos: "(0 :: rat) < of_nat (length text')" by simp
    have "(of_nat (specialCharCount text') / of_nat (length text') > (1 / 10 :: rat))
        = ((of_nat (length text') :: rat) < of_nat (10 * specialCharCount text'))"
      using pos by (simp add: field_simps)
    then show ?thesis using False by (simp only: of_nat_less_iff simp_thms)
  qed
  show ?thesis
    unfolding ratio foundReceiptWords_card [symmetric] by (rule calculateQualityScore_eq)
qed

text \<open>
  Claim C7. For a fixed text the quality score is monotonically non-decreasing in the
  confidence: \<open>c1 \<le> c2\<close> gives
  \<open>calculateQualityScore text c1 \<le> calculateQualityScore text c2\<close>.
\<close>

theorem calculateQualityScore_mono:
  "c1 \<le> c2 \<Longrightarrow>
   calculateQualityScore text' (Some c1) \<le> calculateQualityScore text' (Some c2)"
  unfolding calculateQualityScore_eq option.case
  by (intro max.mono min.mono order_refl diff_right_mono add_right_mono)

theorem calculateQualityScore_mono_witness:
  "(40 :: rat) \<le> 50
   \<and> calculateQualityScore ''abcdefghijklmnopqrs#'' (Some 40)
       \<le> calculateQualityScore ''abcdefghijklmnopqrs#'' (Some 50)"
proof -
  have h: "(40 :: rat) \<le> 50" by simp
  show ?thesis
    using h calculateQualityScore_mono [OF h, of "''abcdefghijklmnopqrs#''"] by simp
qed

section \<open>Properties of the recognition attempts\<close>

lemma attemptBody_Throws:
  "isThrows outcome \<Longrightarrow>
   bestResult (attemptBody outcome variant variantIdx config configIdx st) = bestResult st
   \<and> results (attemptBody outcome variant variantIdx config configIdx st) = results st
   \<and> length (filter isAttemptStarted (console (attemptBody outcome variant variantIdx config configIdx st)))
       = length (filter isAttemptStarted (console st)) + 1"
  by (cases outcome) (simp_all add: attemptBody_def isThrows_def isAttemptStarted_def)

lemma configLoop_Throws:
  "(\<And>j. j < length ocrConfigs \<Longrightarrow> isThrows (worker (configIdx + j))) \<Longrightarrow>
   bestResult (configLoop worker variant variantIdx ocrConfigs configIdx st) = bestResult st
   \<and> results (configLoop worker variant variantIdx ocrConfigs configIdx st) = results st
   \<and> length (filter isAttemptStarted
         (console (configLoop worker variant variantIdx ocrConfigs configIdx st)))
       = length (filter isAttemptStarted (console st)) + length ocrConfigs"
proof (induction ocrConfigs arbitrary: configIdx st)
  case Nil
  show ?case by simp
next
  case (Cons config ocrConfigs)
  have first: "isThrows (worker configIdx)"
    using Cons.prems [of 0] by simp
  have rest: "\<And>j. j < length ocrConfigs \<Longrightarrow> isThrows (worker (configIdx + 1 + j))"
    using Cons.prems [of "Suc j" for j] by simp
  show ?case
    using Cons.IH [OF rest] attemptBody_Throws [OF first] by simp
qed

lemma variantLoop_Throws:
  "(\<And>i j. i < length imageVariants \<Longrightarrow> j < length ocrConfigs \<Longrightarrow>
      isThrows (worker (variantIdx + i) j)) \<Longrightarrow>
   bestResult (variantLoop worker imageVariants variantIdx ocrConfigs st) = bestResult st
   \<and> results (variantLoop worker imageVariants variantIdx ocrConfigs st) = results st
   \<and> length (filter isAttemptStarted
         (console (variantLoop worker imageVariants variantIdx ocrConfigs st)))
       = length (filter isAttemptStarted (console st)) + length imageVariants * length ocrConfigs"
proof (induction imageVariants arbitrary: variantIdx st)
  case Nil
  show ?case by simp
next
  case (Cons variant imageVariants)
  have first: "\<And>j. j < length ocrConfigs \<Longrightarrow> isThrows (worker variantIdx (0 + j))"
    using Cons.prems [of 0] by simp
  have rest: "\<And>i j. i < length imageVariants \<Longrightarrow> j < length ocrConfigs \<Longrightarrow>
      isThrows (worker (variantIdx + 1 + i) j)"
    using Cons.prems [of "Suc i" for i] by simp
  show ?case
    using Cons.IH [OF rest] configLoop_Throws [of ocrConfigs "worker variantIdx" 0, OF first]
    by simp
qed

text \<open>
  Claim C3, as stated: when every attempt throws, the orchestrator surfaces an error
  instead of returning a result. With one variant, one configuration and an engine that
  throws on the only attempt, \<open>performMultiEngineOCR\<close> returns a result: the initial one,
  with the empty text.
\<close>

theorem performMultiEngineOCR_all_fail_counterexample:
  "performMultiEngineOCR (\<lambda>i j. Throws ''engine failure'')
     [\<lparr>name_v = ''original'', description_v = ''Original image''\<rparr>]
     [\<lparr>psm = ''6'', name_c = ''uniform_block'', description_c = ''Uniform block of text'',
       parameters = []\<rparr>]
   = Inr \<lparr>text_r = '''', confidence_r = 0, method_r = '''', processingTime_r = 0\<rparr>"
  by (simp add: performMultiEngineOCR_def runAttempts_def attemptBody_def initialResult_def)

text \<open>
  Claim C3, amended. For N variants and M configurations, if every one of the \<open>N \<times> M\<close>
  attempts throws, then all \<open>N \<times> M\<close> attempts are started (no failure aborts the ones
  after it), no result is recorded, and \<open>performMultiEngineOCR\<close> returns the initial
  best result, whose text and method are empty and whose confidence is 0, rather than
  raising an error.
\<close>

theorem performMultiEngineOCR_all_fail:
  assumes "\<And>i j. i < length imageVariants \<Longrightarrow> j < length ocrConfigs \<Longrightarrow> isThrows (worker i j)"
  shows "length (filter isAttemptStarted (console (runAttempts worker imageVariants ocrConfigs)))
           = length imageVariants * length ocrConfigs
         \<and> results (runAttempts worker imageVariants ocrConfigs) = []
         \<and> performMultiEngineOCR worker imageVariants ocrConfigs = Inr initialResult
         \<and> text_r initialResult = '''' \<and> confidence_r initialResult = 0
         \<and> method_r initialResult = ''''"
proof -
  have "\<And>i j. i < length imageVariants \<Longrightarrow> j < length ocrConfigs \<Longrightarrow> isThrows (worker (0 + i) j)"
    using assms by simp
  from variantLoop_Throws [of imageVariants ocrConfigs worker 0, OF this]
  show ?thesis
    by (simp add: performMultiEngineOCR_def runAttempts_def initialResult_def)
qed

theorem performMultiEngineOCR_all_fail_witness:
  "length (filter isAttemptStarted (console (runAttempts (\<lambda>i j. Throws ''engine failure'')
       [\<lparr>name_v = ''enhanced'', description_v = ''''\<rparr>, \<lparr>name_v = ''original'', description_v = ''''\<rparr>]
       [\<lparr>psm = ''6'', name_c = ''uniform_block'', description_c = '''', parameters = []\<rparr>,
        \<lparr>psm = ''8'', name_c = ''single_word'', description_c = '''', parameters = []\<rparr>,
        \<lparr>psm = ''7'', name_c = ''single_text_line'', description_c = '''', parameters = []\<rparr>])))
     = 6
   \<and> performMultiEngineOCR (\<lambda>i j. Throws ''engine failure'')
       [\<lparr>name_v = ''enhanced'', description_v = ''''\<rparr>, \<lparr>name_v = ''original'', description_v = ''''\<rparr>]
       [\<lparr>psm = ''6'', name_c = ''uniform_block'', description_c = '''', parameters = []\<rparr>,
        \<lparr>psm = ''8'', name_c = ''single_word'', description_c = '''', parameters = []\<rparr>,
        \<lparr>psm = ''7'', name_c = ''single_text_line'', description_c = '''', parameters = []\<rparr>]
     = Inr initialResult"
  using performMultiEngineOCR_all_fail [of
       "[\<lparr>name_v = ''enhanced'', description_v = ''''\<rparr>, \<lparr>name_v = ''original'', description_v = ''''\<rparr>]"
       "[\<lparr>psm = ''6'', name_c = ''uniform_block'', description_c = '''', parameters = []\<rparr>,
        \<lparr>psm = ''8'', name_c = ''single_word'', description_c = '''', parameters = []\<rparr>,
        \<lparr>psm = ''7'', name_c = ''single_text_line'', description_c = '''', parameters = []\<rparr>]"
       "\<lambda>i j. Throws ''engine failure''"]
  by (simp add: isThrows_def)

section \<open>Properties of the field parser\<close>

subsection \<open>The fields each strategy writes\<close>

lemma foldl_frame:
  "(\<And>d x. E (f d x) = E d) \<Longrightarrow> E (foldl f d xs) = E d"
  by (induction xs arbitrary: d) simp_all

lemma basicFieldsOfLine_frame: "eraseBasic (basicFieldsOfLine h d line) = eraseBasic d"
  by (simp add: basicFieldsOfLine_def eraseBasic_def Let_def split: option.splits)

lemma extractBasicFields_frame: "eraseBasic (extractBasicFields h d lines) = eraseBasic d"
  unfolding extractBasicFields_def by (rule foldl_frame) (rule basicFieldsOfLine_frame)

lemma extractBasicFields_form:
  "\<exists>a b c. extractBasicFields h d lines = d\<lparr>invoiceNumber := a, date := b, time := c\<rparr>"
proof -
  let ?e = "extractBasicFields h d lines"
  have "?e = (eraseBasic ?e)\<lparr>invoiceNumber := invoiceNumber ?e, date := date ?e, time := time ?e\<rparr>"
    by (simp add: eraseBasic_def)
  also have "\<dots> = (eraseBasic d)\<lparr>invoiceNumber := invoiceNumber ?e, date := date ?e, time := time ?e\<rparr>"
    by (simp only: extractBasicFields_frame)
  also have "\<dots> = d\<lparr>invoiceNumber := invoiceNumber ?e, date := date ?e, time := time ?e\<rparr>"
    by (simp add: eraseBasic_def)
  finally show ?thesis by blast
qed

lemma extractContextualFields_frame:
  "eraseContextual (extractContextualFields h d lines rawText') = eraseContextual d"
  by (simp add: extractContextualFields_def eraseContextual_def Let_def split: option.splits)

lemma extractContextualFields_form:
  "\<exists>a b c e. extractContextualFields h d lines rawText'
     = d\<lparr>vendor := a, vendorAddress := b, vendorPhone := c, vendorEmail := e\<rparr>"
proof -
  let ?e = "extractContextualFields h d lines rawText'"
  have "?e = (eraseContextual ?e)\<lparr>vendor := vendor ?e, vendorAddress := vendorAddress ?e,
      vendorPhone := vendorPhone ?e, vendorEmail := vendorEmail ?e\<rparr>"
    by (simp add: eraseContextual_def)
  also have "\<dots> = (eraseContextual d)\<lparr>vendor := vendor ?e, vendorAddress := vendorAddress ?e,
      vendorPhone := vendorPhone ?e, vendorEmail := vendorEmail ?e\<rparr>"
    by (simp only: extractContextualFields_frame)
  also have "\<dots> = d\<lparr>vendor := vendor ?e, vendorAddress := vendorAddress ?e,
      vendorPhone := vendorPhone ?e, vendorEmail := vendorEmail ?e\<rparr>"
    by (simp add: eraseContextual_def)
  finally show ?thesis by blast
qed

lemma processFuzzyMatchedLine_frame:
  "eraseAmounts (processFuzzyMatchedLine d line fieldType) = eraseAmounts d"
  by (simp add: processFuzzyMatchedLine_def eraseAmounts_def Let_def)

lemma variationLoop_frame:
  "eraseAmounts (variationLoop d line lowerLine field variations) = eraseAmounts d"
  by (induction variations) (simp_all add: processFuzzyMatchedLine_frame)

lemma fieldLoop_frame:
  "eraseAmounts (fieldLoop d line lowerLine entries) = eraseAmounts d"
  by (induction entries arbitrary: d) (auto simp: variationLoop_frame)

lemma extractWithFuzzyMatching_frame:
  "eraseAmounts (extractWithFuzzyMatching d lines) = eraseAmounts d"
  by (induction lines arbitrary: d) (simp_all add: fieldLoop_frame)

lemma processFuzzyMatchedLine_positive:
  "amountsPositive d \<Longrightarrow> amountsPositive (processFuzzyMatchedLine d line fieldType)"
  by (simp add: processFuzzyMatchedLine_def amountsPositive_def positiveOrUnset_def Let_def)

lemma variationLoop_positive:
  "amountsPositive d \<Longrightarrow> amountsPositive (variationLoop d line lowerLine field variations)"
  by (induction variations) (simp_all add: processFuzzyMatchedLine_positive)

lemma fieldLoop_positive:
  "amountsPositive d \<Longrightarrow> amountsPositive (fieldLoop d line lowerLine entries)"
  by (induction entries arbitrary: d) (auto simp: variationLoop_positive)

lemma extractWithFuzzyMatching_positive:
  "amountsPositive d \<Longrightarrow> amountsPositive (extractWithFuzzyMatching d lines)"
  by (induction lines arbitrary: d) (simp_all add: fieldLoop_positive)

lemma extractWithFuzzyMatching_form:
  assumes "amountsPositive d"
  shows "\<exists>t s x. extractWithFuzzyMatching d lines = d\<lparr>total' := t, subtotal := s, tax := x\<rparr>
           \<and> positiveOrUnset t \<and> positiveOrUnset s \<and> positiveOrUnset x"
proof -
  let ?e = "extractWithFuzzyMatching d lines"
  have "?e = (eraseAmounts ?e)\<lparr>total' := total' ?e, subtotal := subtotal ?e, tax := tax ?e\<rparr>"
    by (simp add: eraseAmounts_def)
  also have "\<dots> = (eraseAmounts d)\<lparr>total' := total' ?e, subtotal := subtotal ?e, tax := tax ?e\<rparr>"
    by (simp only: extractWithFuzzyMatching_frame)
  also have "\<dots> = d\<lparr>total' := total' ?e, subtotal := subtotal ?e, tax := tax ?e\<rparr>"
    by (simp add: eraseAmounts_def)
  finally have "?e = d\<lparr>total' := total' ?e, subtotal := subtotal ?e, tax := tax ?e\<rparr>" .
  moreover have "positiveOrUnset (total' ?e) \<and> positiveOrUnset (subtotal ?e) \<and> positiveOrUnset (tax ?e)"
    using extractWithFuzzyMatching_positive [OF assms, of lines] by (simp add: amountsPositive_def)
  ultimately show ?thesis by blast
qed

lemma assignOfLine_frame:
  "eraseAmountsCurrency (assignOfLine h amounts d thisLine nextLine) = eraseAmountsCurrency d"
  by (simp add: assignOfLine_def eraseAmountsCurrency_def Let_def)

lemma assignAmountsWithContext_frame:
  "eraseAmountsCurrency (assignAmountsWithContext h d amounts lines) = eraseAmountsCurrency d"
  by (induction lines arbitrary: d) (simp_all add: assignOfLine_frame)

lemma finalizeAmountAssignment_frame:
  "eraseAmountsCurrency (finalizeAmountAssignment d amounts) = eraseAmountsCurrency d"
  by (simp add: finalizeAmountAssignment_def eraseAmountsCurrency_def Let_def)

lemma extractAmountsAdvanced_frame:
  "eraseAmountsCurrency (extractAmountsAdvanced h d lines rawText') = eraseAmountsCurrency d"
  by (simp add: extractAmountsAdvanced_def Let_def finalizeAmountAssignment_frame
      assignAmountsWithContext_frame)

lemma keepsSetAmounts_refl: "keepsSetAmounts d d"
  by (simp add: keepsSetAmounts_def)

lemma keepsSetAmounts_trans:
  "keepsSetAmounts d d' \<Longrightarrow> keepsSetAmounts d' d'' \<Longrightarrow> keepsSetAmounts d d''"
  by (auto simp: keepsSetAmounts_def)

lemma assignOfLine_keeps: "keepsSetAmounts d (assignOfLine h amounts d thisLine nextLine)"
  by (simp add: assignOfLine_def keepsSetAmounts_def Let_def)

lemma assignAmountsWithContext_keeps:
  "keepsSetAmounts d (assignAmountsWithContext h d amounts lines)"
proof (induction lines arbitrary: d)
  case Nil
  show ?case by (simp add: keepsSetAmounts_refl)
next
  case (Cons line lines)
  show ?case
    using keepsSetAmounts_trans [OF assignOfLine_keeps Cons.IH] by simp
qed

lemma finalizeAmountAssignment_keeps: "keepsSetAmounts d (finalizeAmountAssignment d amounts)"
  by (simp add: finalizeAmountAssignment_def keepsSetAmounts_def Let_def)

lemma extractAmountsAdvanced_keeps:
  "keepsSetAmounts d (extractAmountsAdvanced h d lines rawText')"
  unfolding extractAmountsAdvanced_def Let_def
  by (rule keepsSetAmounts_trans [OF assignAmountsWithContext_keeps finalizeAmountAssignment_keeps])

lemma positive_truthy: "positiveOrUnset x \<Longrightarrow> x \<noteq> None \<Longrightarrow> truthyNum x"
  by (cases x) (simp_all add: positiveOrUnset_def truthyNum_def)

lemma extractAmountsAdvanced_form:
  assumes "amountsPositive d"
  shows "\<exists>t s x c. extractAmountsAdvanced h d lines rawText'
             = d\<lparr>total' := t, subtotal := s, tax := x, currency := c\<rparr>
           \<and> kept (total' d) t \<and> kept (subtotal d) s \<and> kept (tax d) x"
proof -
  let ?e = "extractAmountsAdvanced h d lines rawText'"
  have "?e = (eraseAmountsCurrency ?e)\<lparr>total' := total' ?e, subtotal := subtotal ?e,
      tax := tax ?e, currency := currency ?e\<rparr>"
    by (simp add: eraseAmountsCurrency_def)
  also have "\<dots> = (eraseAmountsCurrency d)\<lparr>total' := total' ?e, subtotal := subtotal ?e,
      tax := tax ?e, currency := currency ?e\<rparr>"
    by (simp only: extractAmountsAdvanced_frame)
  also have "\<dots> = d\<lparr>total' := total' ?e, subtotal := subtotal ?e, tax := tax ?e,
      currency := currency ?e\<rparr>"
    by (simp add: eraseAmountsCurrency_def)
  finally have form: "?e = d\<lparr>total' := total' ?e, subtotal := subtotal ?e, tax := tax ?e,
      currency := currency ?e\<rparr>" .
  have "kept (total' d) (total' ?e) \<and> kept (subtotal d) (subtotal ?e) \<and> kept (tax d) (tax ?e)"
    using extractAmountsAdvanced_keeps [of d h lines rawText'] assms
    by (auto simp: keepsSetAmounts_def kept_def amountsPositive_def dest: positive_truthy)
  with form show ?thesis by blast
qed

lemma businessDataOfLine_frame: "eraseBusiness (businessDataOfLine h d line) = eraseBusiness d"
  by (simp add: businessDataOfLine_def eraseBusiness_def Let_def split: option.splits)

lemma extractExtraFields_frame: "eraseBusiness (extractExtraFields h d lines) = eraseBusiness d"
  by (simp add: extractExtraFields_def eraseBusiness_def Let_def)

lemma extractBusinessData_frame:
  "eraseBusiness (extractBusinessData h d lines rawText') = eraseBusiness d"
  unfolding extractBusinessData_def extractExtraFields_frame
  by (rule foldl_frame) (rule businessDataOfLine_frame)

lemma extractBusinessData_form:
  "\<exists>a b c e f1 f2 f3 f4 f5. extractBusinessData h d lines rawText'
     = d\<lparr>transactionId := a, authorizationCode := b, cardNumber := c, paymentMethod := e,
         extraField1 := f1, extraField2 := f2, extraField3 := f3, extraField4 := f4,
         extraField5 := f5\<rparr>"
proof -
  let ?e = "extractBusinessData h d lines rawText'"
  have "?e = (eraseBusiness ?e)\<lparr>transactionId := transactionId ?e,
      authorizationCode := authorizationCode ?e, cardNumber := cardNumber ?e,
      paymentMethod := paymentMethod ?e, extraField1 := extraField1 ?e,
      extraField2 := extraField2 ?e, extraField3 := extraField3 ?e,
      extraField4 := extraField4 ?e, extraField5 := extraField5 ?e\<rparr>"
    by (simp add: eraseBusiness_def)
  also have "\<dots> = (eraseBusiness d)\<lparr>transactionId := transactionId ?e,
      authorizationCode := authorizationCode ?e, cardNumber := cardNumber ?e,
      paymentMethod := paymentMethod ?e, extraField1 := extraField1 ?e,
      extraField2 := extraField2 ?e, extraField3 := extraField3 ?e,
      extraField4 := extraField4 ?e, extraField5 := extraField5 ?e\<rparr>"
    by (simp only: extractBusinessData_frame)
  also have "\<dots> = d\<lparr>transactionId := transactionId ?e,
      authorizationCode := authorizationCode ?e, cardNumber := cardNumber ?e,
      paymentMethod := paymentMethod ?e, extraField1 := extraField1 ?e,
      extraField2 := extraField2 ?e, extraField3 := extraField3 ?e,
      extraField4 := extraField4 ?e, extraField5 := extraField5 ?e\<rparr>"
    by (simp add: eraseBusiness_def)
  finally show ?thesis by blast
qed

subsection \<open>The record after each strategy\<close>

lemma keepsAssigned_refl: "keepsAssigned d d"
  by (simp add: keepsAssigned_def kept_def)

lemma kept_trans: "kept x y \<Longrightarrow> kept y z \<Longrightarrow> kept x z"
  by (auto simp: kept_def)

lemma keepsAssigned_trans:
  "keepsAssigned d d' \<Longrightarrow> keepsAssigned d' d'' \<Longrightarrow> keepsAssigned d d''"
  unfolding keepsAssigned_def by (elim conjE, intro conjI) (simp, (erule (1) kept_trans)+)

lemma afterStrategies_steps:
  "afterStrategies h r p c 1
     = extractBasicFields h (afterStrategies h r p c 0) (preprocessLines (splitLines r))"
  "afterStrategies h r p c 2
     = extractContextualFields h (afterStrategies h r p c 1) (preprocessLines (splitLines r)) r"
  "afterStrategies h r p c 3
     = extractWithFuzzyMatching (afterStrategies h r p c 2) (preprocessLines (splitLines r))"
  "afterStrategies h r p c 4
     = extractAmountsAdvanced h (afterStrategies h r p c 3) (preprocessLines (splitLines r)) r"
  "afterStrategies h r p c 5
     = (afterStrategies h r p c 4)\<lparr>items := Some (extractLineItems h (preprocessLines (splitLines r)))\<rparr>"
  "afterStrategies h r p c 6
     = extractBusinessData h (afterStrategies h r p c 5) (preprocessLines (splitLines r)) r"
  by (simp_all add: eval_nat_numeral strategy_def)

lemma afterStrategies_step_keeps:
  "k < 6 \<Longrightarrow> keepsAssigned (afterStrategies h r p c k) (afterStrategies h r p c (Suc k))"
proof -
  assume k: "k < 6"
  let ?s = "afterStrategies h r p c"
  let ?lines = "preprocessLines (splitLines r)"
  obtain a1 b1 c1 where s1: "?s 1 = (?s 0)\<lparr>invoiceNumber := a1, date := b1, time := c1\<rparr>"
    using extractBasicFields_form [of h "?s 0" ?lines]
    unfolding afterStrategies_steps(1) by blast
  obtain a2 b2 c2 e2 where s2: "?s 2 = (?s 1)\<lparr>vendor := a2, vendorAddress := b2,
      vendorPhone := c2, vendorEmail := e2\<rparr>"
    using extractContextualFields_form [of h "?s 1" ?lines r]
    unfolding afterStrategies_steps(2) by blast
  have pos2: "amountsPositive (?s 2)"
    unfolding s2 s1
    by (simp add: amountsPositive_def positiveOrUnset_def initialRecord_def emptyRecord_def)
  obtain t3 s3 x3 where s3: "?s 3 = (?s 2)\<lparr>total' := t3, subtotal := s3, tax := x3\<rparr>"
    and pos3: "positiveOrUnset t3" "positiveOrUnset s3" "positiveOrUnset x3"
    using extractWithFuzzyMatching_form [OF pos2, of ?lines]
    unfolding afterStrategies_steps(3) by blast
  have "amountsPositive (?s 3)"
    unfolding s3 using pos3 by (simp add: amountsPositive_def)
  from extractAmountsAdvanced_form [OF this, of h ?lines r]
  obtain t4 s4 x4 c4 where s4: "?s 4 = (?s 3)\<lparr>total' := t4, subtotal := s4, tax := x4,
      currency := c4\<rparr>"
    and k4: "kept (total' (?s 3)) t4" "kept (subtotal (?s 3)) s4" "kept (tax (?s 3)) x4"
    unfolding afterStrategies_steps(4) by blast
  have k34: "kept t3 t4" "kept s3 s4" "kept x3 x4"
    using k4 unfolding s3 by simp_all
  obtain a6 b6 c6 e6 f1 f2 f3 f4 f5 where s6: "?s 6 = (?s 5)\<lparr>transactionId := a6,
      authorizationCode := b6, cardNumber := c6, paymentMethod := e6, extraField1 := f1,
      extraField2 := f2, extraField3 := f3, extraField4 := f4, extraField5 := f5\<rparr>"
    using extractBusinessData_form [of h "?s 5" ?lines r]
    unfolding afterStrategies_steps(6) by blast
  have s0: "?s 0 = initialRecord h r p c" by simp
  note s5 = afterStrategies_steps(5) [of h r p c]
  have kept_same: "\<And>x :: 'z option. kept x x" "\<And>y :: 'z option. kept None y"
    by (simp_all add: kept_def)
  have step0: "keepsAssigned (?s 0) (?s 1)"
    unfolding s1 s0 by (simp add: keepsAssigned_def kept_same initialRecord_def emptyRecord_def)
  have step1: "keepsAssigned (?s 1) (?s 2)"
    unfolding s2 s1 s0 by (simp add: keepsAssigned_def kept_same initialRecord_def emptyRecord_def)
  have step2: "keepsAssigned (?s 2) (?s 3)"
    unfolding s3 s2 s1 s0
    by (simp add: keepsAssigned_def kept_same initialRecord_def emptyRecord_def)
  have step3: "keepsAssigned (?s 3) (?s 4)"
    unfolding s4 s3 s2 s1 s0 using k34
    by (simp add: keepsAssigned_def kept_same initialRecord_def emptyRecord_def)
  have step4: "keepsAssigned (?s 4) (?s 5)"
    unfolding s5 s4 s3 s2 s1 s0
    by (simp add: keepsAssigned_def kept_same initialRecord_def emptyRecord_def)
  have step5: "keepsAssigned (?s 5) (?s 6)"
    unfolding s6 s5 s4 s3 s2 s1 s0
    by (simp add: keepsAssigned_def kept_same initialRecord_def emptyRecord_def)
  from k have "k = 0 \<or> k = 1 \<or> k = 2 \<or> k = 3 \<or> k = 4 \<or> k = 5" by arith
  then show ?thesis
    using step0 step1 step2 step3 step4 step5
    by (elim disjE) (simp_all add: eval_nat_numeral)
qed

lemma afterStrategies_keeps:
  "j \<le> k \<Longrightarrow> k \<le> 6 \<Longrightarrow>
   keepsAssigned (afterStrategies h r p c j) (afterStrategies h r p c k)"
proof (induction k)
  case 0
  then show ?case by (simp add: keepsAssigned_refl)
next
  case (Suc k)
  show ?case
  proof (cases "j = Suc k")
    case True
    then show ?thesis by (simp add: keepsAssigned_refl)
  next
    case False
    with Suc.prems have jk: "j \<le> k" and k6: "k < 6" by simp_all
    from Suc.IH [OF jk] k6 have "keepsAssigned (afterStrategies h r p c j) (afterStrategies h r p c k)"
      by simp
    then show ?thesis
      by (rule keepsAssigned_trans) (rule afterStrategies_step_keeps [OF k6])
  qed
qed

subsection \<open>Inside the fuzzy-matching strategy\<close>

lemma fuzzyKeeps_refl: "fuzzyKeeps d d"
  by (simp add: fuzzyKeeps_def)

lemma fuzzyKeeps_trans: "fuzzyKeeps d d' \<Longrightarrow> fuzzyKeeps d' d'' \<Longrightarrow> fuzzyKeeps d d''"
  by (auto simp: fuzzyKeeps_def)

lemma processFuzzyMatchedLine_fuzzyKeeps: "fuzzyKeeps d (processFuzzyMatchedLine d line fieldType)"
  by (auto simp: processFuzzyMatchedLine_def fuzzyKeeps_def truthyNum_def Let_def
      split: option.splits)

lemma variationLoop_fuzzyKeeps: "fuzzyKeeps d (variationLoop d line lowerLine field variations)"
  by (induction variations) (simp_all add: fuzzyKeeps_refl processFuzzyMatchedLine_fuzzyKeeps)

lemma fieldLoop_fuzzyKeeps: "fuzzyKeeps d (fieldLoop d line lowerLine entries)"
proof (induction entries arbitrary: d)
  case Nil
  show ?case by (simp add: fuzzyKeeps_refl)
next
  case (Cons entry entries)
  obtain field variations where entry: "entry = (field, variations)" by (cases entry)
  show ?case
    unfolding entry fieldLoop.simps
    by (rule fuzzyKeeps_trans [OF variationLoop_fuzzyKeeps Cons.IH])
qed

lemma extractWithFuzzyMatching_fuzzyKeeps: "fuzzyKeeps d (extractWithFuzzyMatching d lines)"
proof (induction lines arbitrary: d)
  case Nil
  show ?case by (simp add: fuzzyKeeps_refl)
next
  case (Cons line lines)
  show ?case
    unfolding extractWithFuzzyMatching.simps
    by (rule fuzzyKeeps_trans [OF fieldLoop_fuzzyKeeps Cons.IH])
qed

text \<open>
  Inside the fuzzy-matching strategy a subtotal or a tax that is set is not written again,
  while the total is written under the test \<open>!invoiceData.total || amount > invoiceData.total\<close>:
  of the totals of several matching lines the largest is kept. On the lines \<open>total 5\<close> and
  \<open>total 9\<close> the strategy writes 5 and then 9. The total it compares with is one that the
  strategy itself has written: after the first two strategies the total, the subtotal and
  the tax are not set, for every text.
\<close>

lemma fuzzy_total_of_two_lines:
  "total' (extractWithFuzzyMatching (emptyRecord '''') [''total 5'']) = Some 5
   \<and> total' (extractWithFuzzyMatching (emptyRecord '''') [''total 5'', ''total 9'']) = Some 9"
proof -
  have first: "total' (extractWithFuzzyMatching (emptyRecord '''') [''total 5'']) = Some 5"
    by code_simp
  have second: "total' (extractWithFuzzyMatching (emptyRecord '''') [''total 5'', ''total 9'']) = Some 9"
    by code_simp
  from first second show ?thesis by blast
qed

lemma no_amount_before_fuzzy:
  "total' (afterStrategies h r p c 2) = None
   \<and> subtotal (afterStrategies h r p c 2) = None
   \<and> tax (afterStrategies h r p c 2) = None"
proof -
  obtain a1 a2 a3 where one: "afterStrategies h r p c 1
      = (afterStrategies h r p c 0)\<lparr>invoiceNumber := a1, date := a2, time := a3\<rparr>"
    unfolding afterStrategies_steps using extractBasicFields_form by blast
  obtain b1 b2 b3 b4 where two: "afterStrategies h r p c 2
      = (afterStrategies h r p c 1)\<lparr>vendor := b1, vendorAddress := b2, vendorPhone := b3,
          vendorEmail := b4\<rparr>"
    unfolding afterStrategies_steps using extractContextualFields_form by blast
  show ?thesis
    unfolding two one by (simp add: initialRecord_def emptyRecord_def)
qed


text \<open>
  Claim C4. For the line \<open>T0TAL 55.00\<close> the claim says that the fuzzy-matching strategy
  finds a similarity of at least 0.7 with a variant of \<open>total\<close> and puts 55.00 into the
  total. The theorem evaluates the strategy on this line. The whole lowercased line, 11
  characters long, is compared with each variant: its similarity to \<open>total\<close> is 4/11 and
  to \<open>t0tal\<close>, the nearest variant, 5/11; it matches no variant of any field, and
  \<open>extractWithFuzzyMatching\<close> returns the record unchanged. The trailing number of the
  line would be read as 55.
\<close>

theorem fuzzy_matching_of_reference_line:
  "toLowerCase ''T0TAL 55.00'' = ''t0tal 55.00''
   \<and> calculateSimilarity ''t0tal 55.00'' ''total'' = 4 / 11
   \<and> calculateSimilarity ''t0tal 55.00'' ''t0tal'' = 5 / 11
   \<and> \<not> list_ex (fuzzyMatch ''t0tal 55.00'') (concat (map snd fuzzyPatterns))
   \<and> extractWithFuzzyMatching d [''T0TAL 55.00''] = d
   \<and> IntelligentParser_parseAmount (last (numberMatches ''T0TAL 55.00'')) = 55"
proof -
  have lower: "toLowerCase ''T0TAL 55.00'' = ''t0tal 55.00''"
    by code_simp
  have total: "calculateSimilarity ''t0tal 55.00'' ''total'' = 4 / 11"
    by code_simp
  have nearest: "calculateSimilarity ''t0tal 55.00'' ''t0tal'' = 5 / 11"
    by code_simp
  have none: "\<not> list_ex (fuzzyMatch ''t0tal 55.00'') (concat (map snd fuzzyPatterns))"
    by code_simp
  have unchanged: "extractWithFuzzyMatching d [''T0TAL 55.00''] = d"
    by code_simp
  have number: "IntelligentParser_parseAmount (last (numberMatches ''T0TAL 55.00'')) = 55"
    by code_simp
  from lower total nearest none unchanged number show ?thesis by blast
qed


section \<open>Properties of the processing controller\<close>

lemma tryAttempt_attemptsUsed:
  "(case tryAttempt w doc m attempt st of
      Return result \<Rightarrow> attemptsUsed (performance result) = attemptsUsed_s st
    | Continue st' \<Rightarrow> attemptsUsed_s st' = attemptsUsed_s st
    | Break st' \<Rightarrow> attemptsUsed_s st' = attemptsUsed_s st)"
  by (simp add: tryAttempt_def catchBlock_def Let_def split: sum.splits)

lemma allAttemptsFailed_attemptsUsed:
  "attemptsUsed (performance (allAttemptsFailed w st)) = attemptsUsed_s st"
  by (simp add: allAttemptsFailed_def createErrorResult_def)

lemma createErrorResult_no_performance:
  "attemptsUsed (performance (createErrorResult w message e None)) = 0"
  by (simp add: createErrorResult_def Let_def)

lemma attemptLoop_attemptsUsed:
  "attemptsUsed_s st \<le> m + 1 \<Longrightarrow>
   attemptsUsed (performance (attemptLoop w doc m attempt st)) \<le> m + 1"
proof (induction w doc m attempt st rule: attemptLoop.induct)
  case (1 w doc m attempt st)
  show ?case
  proof (cases "attempt \<le> m")
    case False
    then show ?thesis
      using "1.prems" by (subst attemptLoop.simps) (simp add: allAttemptsFailed_attemptsUsed)
  next
    case True
    let ?st = "st\<lparr>attemptsUsed_s := attempt + 1\<rparr>"
    note body = tryAttempt_attemptsUsed [where w = w and doc = doc and m = m and attempt = attempt and st = ?st]
    show ?thesis
    proof (cases "tryAttempt w doc m attempt ?st")
      case (Return result)
      then show ?thesis
        using True body by (subst attemptLoop.simps) simp
    next
      case (Continue st')
      have "attemptsUsed_s st' \<le> m + 1"
        using True body Continue by simp
      from "1.IH" [OF True Continue this] show ?thesis
        using True Continue by (subst attemptLoop.simps) simp
    next
      case (Break st')
      then show ?thesis
        using True body by (subst attemptLoop.simps) (simp add: allAttemptsFailed_attemptsUsed)
    qed
  qed
qed

text \<open>
  Claim C2, as stated: for every options object the attempts used are at most
  \<open>maxRetries + 1\<close>. With \<open>maxRetries = -2\<close> the loop is not entered, the result reports
  0 attempts, and \<open>maxRetries + 1\<close> is \<open>-1\<close>.
\<close>

theorem processDocument_attemptsUsed_counterexample:
  "attemptsUsed (performance
      (processDocument exampleService exampleFile (defaultOptions\<lparr>maxRetries := Some (- 2)\<rparr>))) = 0
   \<and> resolvedMaxRetries (defaultOptions\<lparr>maxRetries := Some (- 2)\<rparr>) + 1 = - 1"
proof -
  have valid: "validateFile exampleFile = None"
    by (simp add: validateFile_def exampleFile_def allowedTypes_def trim_def isSpace_def)
  have m: "resolvedMaxRetries (defaultOptions\<lparr>maxRetries := Some (- 2)\<rparr>) = - 2"
    by (simp add: resolvedMaxRetries_def)
  show ?thesis
    unfolding m
    by (subst processDocument_def, subst attemptLoop.simps)
       (simp add: valid m exampleService_def allAttemptsFailed_attemptsUsed)
qed

text \<open>
  Claim C2, amended. For every document and every options object whose \<open>maxRetries\<close>,
  2 when the caller gives none, is at least \<open>-1\<close>, the result of \<open>processDocument\<close>
  reports at most \<open>maxRetries + 1\<close> attempts, on every exit path: failed initialization,
  failed validation, errors in every attempt, a result of low quality on the last attempt,
  and success.
\<close>

theorem processDocument_attemptsUsed:
  assumes "- 1 \<le> resolvedMaxRetries options"
  shows "attemptsUsed (performance (processDocument w doc options))
           \<le> resolvedMaxRetries options + 1
         \<and> resolvedMaxRetries (options\<lparr>maxRetries := None\<rparr>) = 2"
proof -
  have loop: "attemptsUsed (performance (attemptLoop w doc (resolvedMaxRetries options) 0
      \<lparr>lastError = None, ocrTime_s = 0, parsingTime_s = 0, attemptsUsed_s = 0\<rparr>))
      \<le> resolvedMaxRetries options + 1"
    by (rule attemptLoop_attemptsUsed) (use assms in simp)
  have bound: "attemptsUsed (performance (processDocument w doc options))
      \<le> resolvedMaxRetries options + 1"
    using assms loop
    by (simp add: processDocument_def createErrorResult_no_performance split: option.splits)
  have default: "resolvedMaxRetries (options\<lparr>maxRetries := None\<rparr>) = 2"
    by (simp add: resolvedMaxRetries_def)
  from bound default show ?thesis by simp
qed

theorem processDocument_attemptsUsed_witness:
  "- 1 \<le> resolvedMaxRetries defaultOptions
   \<and> attemptsUsed (performance (processDocument exampleService exampleFile defaultOptions))
       \<le> resolvedMaxRetries defaultOptions + 1"
proof -
  have h: "- 1 \<le> resolvedMaxRetries defaultOptions"
    by (simp add: resolvedMaxRetries_def defaultOptions_def)
  show ?thesis
    using h processDocument_attemptsUsed [OF h, of exampleService exampleFile] by simp
qed

subsection \<open>Exhaustion of the retry budget\<close>

lemma parseInvoiceData_rawText: "rawText (parseInvoiceData h r f p c) = Some r"
proof -
  have "keepsAssigned (afterStrategies h r p c 0) (afterStrategies h r p c 6)"
    by (rule afterStrategies_keeps) simp_all
  then have "kept (rawText (afterStrategies h r p c 0)) (rawText (afterStrategies h r p c 6))"
    by (simp add: keepsAssigned_def)
  then have "rawText (afterStrategies h r p c 6) = Some r"
    by (simp add: kept_def initialRecord_def)
  then show ?thesis
    by (simp add: parseInvoiceData_def validateAndCleanData_def Let_def)
qed

lemma tryAttempt_retry:
  "k \<noteq> m \<Longrightarrow> \<not> acceptedAt w doc m k \<Longrightarrow> \<exists>st'. tryAttempt w doc m k st = Continue st'"
  by (auto simp: tryAttempt_def acceptedAt_def catchBlock_def Let_def split: sum.splits)

lemma tryAttempt_final:
  "\<not> acceptedAt w doc m m \<Longrightarrow>
   (case extractedAt w doc m of
      None \<Rightarrow> (\<exists>st'. tryAttempt w doc m m st = Break st' \<and> attemptsUsed_s st' = attemptsUsed_s st)
    | Some extracted \<Rightarrow>
        (\<exists>e p. tryAttempt w doc m m st
                 = Return \<lparr>data = extracted, success = False,
                           error = Some (''Low quality result ('' @ e), performance = p\<rparr>
               \<and> attemptsUsed p = attemptsUsed_s st))"
  by (auto simp: tryAttempt_def acceptedAt_def extractedAt_def catchBlock_def Let_def
      split: sum.splits)

lemma allAttemptsFailed_result:
  "\<not> success (allAttemptsFailed w st)
   \<and> (\<exists>e. error (allAttemptsFailed w st) = Some (''Processing failed after '' @ e))
   \<and> data (allAttemptsFailed w st)
       = (emptyRecord (errorUUID w))\<lparr>rawText := Some '''', processingTime := Some 0\<rparr>"
  by (simp add: allAttemptsFailed_def createErrorResult_def)

lemma attemptLoop_exhausted:
  "attempt \<le> m \<Longrightarrow> (\<And>k. attempt \<le> k \<Longrightarrow> k \<le> m \<Longrightarrow> \<not> acceptedAt w doc m k) \<Longrightarrow>
   \<not> success (attemptLoop w doc m attempt st)
   \<and> (\<exists>e. error (attemptLoop w doc m attempt st) = Some e \<and> e \<noteq> [])
   \<and> attemptsUsed (performance (attemptLoop w doc m attempt st)) = m + 1
   \<and> (case extractedAt w doc m of
         Some extracted \<Rightarrow> data (attemptLoop w doc m attempt st) = extracted
       | None \<Rightarrow> data (attemptLoop w doc m attempt st)
           = (emptyRecord (errorUUID w))\<lparr>rawText := Some '''', processingTime := Some 0\<rparr>)"
proof (induction w doc m attempt st rule: attemptLoop.induct)
  case (1 w doc m attempt st)
  let ?st = "st\<lparr>attemptsUsed_s := attempt + 1\<rparr>"
  have here: "\<not> acceptedAt w doc m attempt"
    using "1.prems" by simp
  show ?case
  proof (cases "attempt = m")
    case False
    from tryAttempt_retry [OF False here, of ?st]
    obtain st' where continue: "tryAttempt w doc m attempt ?st = Continue st'" by blast
    have le: "attempt \<le> m" and next_le: "attempt + 1 \<le> m"
      using "1.prems"(1) False by simp_all
    have rest: "\<And>k. attempt + 1 \<le> k \<Longrightarrow> k \<le> m \<Longrightarrow> \<not> acceptedAt w doc m k"
      using "1.prems"(2) by simp
    have unfold: "attemptLoop w doc m attempt st = attemptLoop w doc m (attempt + 1) st'"
      using le continue by (subst attemptLoop.simps) simp
    show ?thesis
      unfolding unfold by (rule "1.IH" [OF le continue next_le rest])
  next
    case True
    note final = tryAttempt_final [OF here [unfolded True], of ?st]
    show ?thesis
    proof (cases "extractedAt w doc m")
      case None
      with final obtain st' where break: "tryAttempt w doc m m ?st = Break st'"
        and used: "attemptsUsed_s st' = attemptsUsed_s ?st" by auto
      have unfold: "attemptLoop w doc m attempt st = allAttemptsFailed w st'"
        using True break by (subst attemptLoop.simps) simp
      show ?thesis
        unfolding unfold using True None used allAttemptsFailed_result [of w st']
        by (auto simp: allAttemptsFailed_attemptsUsed)
    next
      case (Some extracted)
      with final obtain e p where return: "tryAttempt w doc m m ?st
          = Return \<lparr>data = extracted, success = False,
                    error = Some (''Low quality result ('' @ e), performance = p\<rparr>"
        and used: "attemptsUsed p = attemptsUsed_s ?st" by auto
      have unfold: "attemptLoop w doc m attempt st
          = \<lparr>data = extracted, success = False,
             error = Some (''Low quality result ('' @ e), performance = p\<rparr>"
        using True return by (subst attemptLoop.simps) simp
      show ?thesis
        unfolding unfold using True Some used by simp
    qed
  qed
qed

lemma extractedAt_rawText:
  "extractedAt w doc k = Some extracted \<Longrightarrow> \<exists>t. rawText extracted = Some t \<and> t \<noteq> []"
  by (auto simp: extractedAt_def parseInvoiceData_rawText split: sum.splits if_splits)

lemma attemptFails_not_accepted: "attemptFails w doc k \<Longrightarrow> \<not> acceptedAt w doc m k"
  by (auto simp: attemptFails_def extractedAt_def acceptedAt_def isResultAcceptable_def Let_def
      split: sum.splits if_splits)

lemma example_valid: "validateFile exampleFile = None"
  by (simp add: validateFile_def exampleFile_def allowedTypes_def trim_def isSpace_def)

lemma example_budget: "resolvedMaxRetries defaultOptions = 2"
  by (simp add: resolvedMaxRetries_def defaultOptions_def)

lemma example_first_attempt:
  "map_option rawText (extractedAt exampleService exampleFile 0) = Some (Some ''@@@@@@@@@@@@'')
   \<and> map_option assessDataQuality (extractedAt exampleService exampleFile 0) = Some 0"
proof -
  have raw: "map_option rawText (extractedAt exampleService exampleFile 0)
      = Some (Some ''@@@@@@@@@@@@'')"
    by code_simp
  have quality: "map_option assessDataQuality (extractedAt exampleService exampleFile 0) = Some 0"
    by code_simp
  from raw quality show ?thesis by blast
qed

lemma example_attempt_first:
  "tryAttempt exampleService exampleFile 2 0 st
     = Continue (st\<lparr>ocrTime_s := 1500, parsingTime_s := 2\<rparr>)"
  by (simp add: tryAttempt_def exampleService_def isResultAcceptable_def
      parseInvoiceData_rawText Let_def trim_def isSpace_def)

lemma example_attempt_later:
  "k \<noteq> 0 \<Longrightarrow> tryAttempt exampleService exampleFile m k st
     = catchBlock m k ''OCR processing timeout'' st"
  by (simp add: tryAttempt_def exampleService_def)

lemma example_later_attempts: "k \<noteq> 0 \<Longrightarrow> extractedAt exampleService exampleFile k = None"
  by (simp add: extractedAt_def exampleService_def)

lemma example_fails: "attemptFails exampleService exampleFile k"
proof (cases "k = 0")
  case True
  from example_first_attempt obtain extracted
    where "extractedAt exampleService exampleFile 0 = Some extracted"
      and "assessDataQuality extracted = 0"
    by auto
  with True show ?thesis by (simp add: attemptFails_def)
next
  case False
  then show ?thesis by (simp add: attemptFails_def example_later_attempts)
qed

lemma garbled_attempts:
  "map_option rawText (extractedAt garbledService exampleFile 2) = Some (Some ''@@@@@@@@@@@@'')
   \<and> map_option assessDataQuality (extractedAt garbledService exampleFile 2) = Some 0"
proof -
  have raw: "map_option rawText (extractedAt garbledService exampleFile 2)
      = Some (Some ''@@@@@@@@@@@@'')"
    by code_simp
  have quality: "map_option assessDataQuality (extractedAt garbledService exampleFile 2) = Some 0"
    by code_simp
  from raw quality show ?thesis by blast
qed

lemma garbled_same_attempts:
  "extractedAt garbledService exampleFile k = extractedAt garbledService exampleFile 2"
  by (simp add: extractedAt_def garbledService_def)

lemma garbled_fails: "attemptFails garbledService exampleFile k"
proof -
  from garbled_attempts obtain extracted
    where "extractedAt garbledService exampleFile 2 = Some extracted"
      and "assessDataQuality extracted = 0"
    by auto
  then show ?thesis
    unfolding attemptFails_def garbled_same_attempts [of k] by simp
qed

text \<open>
  Claim C9, as stated: when the retry budget is exhausted, the data of the result carries
  the best partial record obtained rather than an empty one. In the concrete run the first
  attempt extracts a record whose raw text is \<open>@@@@@@@@@@@@\<close> and whose quality score
  is 0, and the second and the third attempt time out: every attempt fails in the sense of
  the claim. The result has \<open>success = false\<close> and an error message, but its data is the
  empty record, with the empty raw text, and not the record of the first attempt.
\<close>

theorem processDocument_exhausted_counterexample:
  "map_option rawText (extractedAt exampleService exampleFile 0) = Some (Some ''@@@@@@@@@@@@'')
   \<and> map_option assessDataQuality (extractedAt exampleService exampleFile 0) = Some 0
   \<and> extractedAt exampleService exampleFile 1 = None
   \<and> extractedAt exampleService exampleFile 2 = None
   \<and> success (processDocument exampleService exampleFile defaultOptions) = False
   \<and> error (processDocument exampleService exampleFile defaultOptions)
       = Some ''Processing failed after 3 attempts: OCR processing timeout''
   \<and> data (processDocument exampleService exampleFile defaultOptions)
       = (emptyRecord ''00000000-0000-4000-8000-000000000001'')
           \<lparr>rawText := Some '''', processingTime := Some 0\<rparr>"
proof -
  let ?st = "\<lparr>lastError = None, ocrTime_s = 0, parsingTime_s = 0, attemptsUsed_s = 0\<rparr>"
  have later: "extractedAt exampleService exampleFile 1 = None
      \<and> extractedAt exampleService exampleFile 2 = None"
    by (simp add: example_later_attempts)
  have loop: "processDocument exampleService exampleFile defaultOptions
      = attemptLoop exampleService exampleFile 2 0 ?st"
    by (simp add: processDocument_def example_valid example_budget exampleService_def)
  have first: "attemptLoop exampleService exampleFile 2 0 ?st
      = attemptLoop exampleService exampleFile 2 1
          \<lparr>lastError = None, ocrTime_s = 1500, parsingTime_s = 2, attemptsUsed_s = 1\<rparr>"
    by (subst attemptLoop.simps) (simp add: example_attempt_first)
  have second: "attemptLoop exampleService exampleFile 2 1
        \<lparr>lastError = None, ocrTime_s = 1500, parsingTime_s = 2, attemptsUsed_s = 1\<rparr>
      = attemptLoop exampleService exampleFile 2 2
          \<lparr>lastError = Some ''OCR processing timeout'', ocrTime_s = 1500, parsingTime_s = 2,
           attemptsUsed_s = 2\<rparr>"
    by (subst attemptLoop.simps) (simp add: example_attempt_later catchBlock_def)
  have third: "attemptLoop exampleService exampleFile 2 2
        \<lparr>lastError = Some ''OCR processing timeout'', ocrTime_s = 1500, parsingTime_s = 2,
         attemptsUsed_s = 2\<rparr>
      = allAttemptsFailed exampleService
          \<lparr>lastError = Some ''OCR processing timeout'', ocrTime_s = 1500, parsingTime_s = 2,
           attemptsUsed_s = 3\<rparr>"
    by (subst attemptLoop.simps) (simp add: example_attempt_later catchBlock_def)
  have three: "numToString (Some 3) = ''3''"
    by code_simp
  have run: "success (processDocument exampleService exampleFile defaultOptions) = False
      \<and> error (processDocument exampleService exampleFile defaultOptions)
          = Some ''Processing failed after 3 attempts: OCR processing timeout''
      \<and> data (processDocument exampleService exampleFile defaultOptions)
          = (emptyRecord ''00000000-0000-4000-8000-000000000001'')
              \<lparr>rawText := Some '''', processingTime := Some 0\<rparr>"
    unfolding loop first second third
    by (simp add: allAttemptsFailed_def createErrorResult_def three exampleService_def)
  from example_first_attempt later run show ?thesis by blast
qed

text \<open>
  Claim C9, amended. Take a document that reaches the retry loop (the service is
  initialized or initializes, the file is valid, \<open>maxRetries\<close> is not negative) and whose
  retry budget is exhausted: every attempt raised an error, timed out, or produced a
  quality score below the threshold of the final attempt. Then \<open>processDocument\<close> returns
  a result with \<open>success = false\<close> and an error string that is not empty. If the final
  attempt produced an extraction, the data of the result is that extraction, and its raw
  text is not empty. If the final attempt raised an error or timed out, the data is the
  empty record with the empty raw text, whatever the attempts before it extracted.
\<close>

theorem processDocument_exhausted:
  assumes started: "isInitialized w \<or> initializeError w = None"
    and valid: "validateFile doc = None"
    and budget: "0 \<le> resolvedMaxRetries options"
    and exhausted: "\<And>k. 0 \<le> k \<Longrightarrow> k \<le> resolvedMaxRetries options \<Longrightarrow> attemptFails w doc k"
  shows "\<not> success (processDocument w doc options)
    \<and> (\<exists>e. error (processDocument w doc options) = Some e \<and> e \<noteq> [])
    \<and> (case extractedAt w doc (resolvedMaxRetries options) of
          Some extracted \<Rightarrow>
            data (processDocument w doc options) = extracted
            \<and> (\<exists>t. rawText (data (processDocument w doc options)) = Some t \<and> t \<noteq> [])
        | None \<Rightarrow>
            data (processDocument w doc options)
              = (emptyRecord (errorUUID w))\<lparr>rawText := Some '''', processingTime := Some 0\<rparr>)"
proof -
  let ?m = "resolvedMaxRetries options"
  let ?st = "\<lparr>lastError = None, ocrTime_s = 0, parsingTime_s = 0, attemptsUsed_s = 0\<rparr>"
  have loop: "processDocument w doc options = attemptLoop w doc ?m 0 ?st"
    using started valid by (auto simp: processDocument_def)
  have none: "\<And>k. 0 \<le> k \<Longrightarrow> k \<le> ?m \<Longrightarrow> \<not> acceptedAt w doc ?m k"
    by (rule attemptFails_not_accepted) (rule exhausted)
  note result = attemptLoop_exhausted [of 0 ?m w doc ?st, OF budget none]
  show ?thesis
  proof (cases "extractedAt w doc ?m")
    case None
    with result show ?thesis unfolding loop by simp
  next
    case (Some extracted)
    from extractedAt_rawText [OF Some] obtain t where "rawText extracted = Some t" and "t \<noteq> []"
      by blast
    with Some result show ?thesis unfolding loop by simp
  qed
qed

text \<open>
  Two runs with the default budget of three attempts. In the first the final attempt times
  out, and the data is the empty record. In the second every attempt extracts the record
  of the text \<open>@@@@@@@@@@@@\<close>, whose quality score is 0, and the data is the record of the
  final attempt.
\<close>

theorem processDocument_exhausted_witness:
  "validateFile exampleFile = None
   \<and> resolvedMaxRetries defaultOptions = 2
   \<and> attemptFails exampleService exampleFile 0
   \<and> attemptFails exampleService exampleFile 1
   \<and> attemptFails exampleService exampleFile 2
   \<and> extractedAt exampleService exampleFile 2 = None
   \<and> \<not> success (processDocument exampleService exampleFile defaultOptions)
   \<and> (\<exists>e. error (processDocument exampleService exampleFile defaultOptions) = Some e \<and> e \<noteq> [])
   \<and> data (processDocument exampleService exampleFile defaultOptions)
       = (emptyRecord ''00000000-0000-4000-8000-000000000001'')
           \<lparr>rawText := Some '''', processingTime := Some 0\<rparr>
   \<and> attemptFails garbledService exampleFile 0
   \<and> attemptFails garbledService exampleFile 1
   \<and> attemptFails garbledService exampleFile 2
   \<and> \<not> success (processDocument garbledService exampleFile defaultOptions)
   \<and> (\<exists>e. error (processDocument garbledService exampleFile defaultOptions) = Some e \<and> e \<noteq> [])
   \<and> Some (data (processDocument garbledService exampleFile defaultOptions))
       = extractedAt garbledService exampleFile 2
   \<and> rawText (data (processDocument garbledService exampleFile defaultOptions))
       = Some ''@@@@@@@@@@@@''"
proof -
  have budget: "0 \<le> resolvedMaxRetries defaultOptions"
    by (simp add: example_budget)
  have final: "extractedAt exampleService exampleFile (resolvedMaxRetries defaultOptions) = None"
    by (simp add: example_budget example_later_attempts)
  have first: "\<not> success (processDocument exampleService exampleFile defaultOptions)
    \<and> (\<exists>e. error (processDocument exampleService exampleFile defaultOptions) = Some e \<and> e \<noteq> [])
    \<and> data (processDocument exampleService exampleFile defaultOptions)
       = (emptyRecord ''00000000-0000-4000-8000-000000000001'')
           \<lparr>rawText := Some '''', processingTime := Some 0\<rparr>"
    using processDocument_exhausted [of exampleService exampleFile defaultOptions,
        OF _ example_valid budget example_fails]
    unfolding final by (simp add: exampleService_def)
  from garbled_attempts obtain extracted
    where extracted: "extractedAt garbledService exampleFile 2 = Some extracted"
      and raw: "rawText extracted = Some ''@@@@@@@@@@@@''"
    by auto
  have second: "\<not> success (processDocument garbledService exampleFile defaultOptions)
    \<and> (\<exists>e. error (processDocument garbledService exampleFile defaultOptions) = Some e \<and> e \<noteq> [])
    \<and> Some (data (processDocument garbledService exampleFile defaultOptions))
       = extractedAt garbledService exampleFile 2
    \<and> rawText (data (processDocument garbledService exampleFile defaultOptions))
       = Some ''@@@@@@@@@@@@''"
    using processDocument_exhausted [of garbledService exampleFile defaultOptions,
        OF _ example_valid budget garbled_fails]
    unfolding example_budget extracted using raw by (simp add: garbledService_def)
  from first second example_valid example_budget example_fails garbled_fails final
  show ?thesis
    unfolding example_budget by blast
qed
end
